theory Spec2Isabelle
  imports Main
begin

section \<open>Values shared by the client and the tools\<close>

text \<open>
  JavaScript truthiness of an optional string member: \<open>undefined\<close> and the empty
  string are falsy, every other string is truthy.
\<close>

definition truthy :: "string option \<Rightarrow> bool" where
  "truthy v = (case v of None \<Rightarrow> False | Some s \<Rightarrow> s \<noteq> [])"

text \<open>\<open>a || b\<close> where \<open>a\<close> is an optional string member and \<open>b\<close> a string.\<close>

definition js_or :: "string option \<Rightarrow> string \<Rightarrow> string" where
  "js_or a b = (case a of None \<Rightarrow> b | Some s \<Rightarrow> if s \<noteq> [] then s else b)"

text \<open>
  Decimal rendering of a non-negative integer, as a template literal renders a number
  (\<open>`${this.timeout}ms`\<close>, \<open>`HTTP ${response.status}`\<close>).
\<close>

definition digit_char :: "nat \<Rightarrow> char" where
  "digit_char d = ''0123456789'' ! d"

function string_of_nat :: "nat \<Rightarrow> string" where
  "string_of_nat n =
     (if n < 10 then [digit_char n]
      else string_of_nat (n div 10) @ [digit_char (n mod 10)])"
  by pat_completeness auto
termination
  by (relation "measure id") auto

declare string_of_nat.simps [simp del]

text \<open>A string between double quotes, as \<open>`"${value}"`\<close> renders it.\<close>

definition quoted :: "string \<Rightarrow> string" where
  "quoted s = [CHR 0x22] @ s @ [CHR 0x22]"

subsection \<open>Entities of \<open>types.ts\<close>\<close>

text \<open>
  Only the members that the modelled code reads are kept. A member that the code
  guards (\<open>?.\<close>, \<open>||\<close>, a truthiness test) is an \<open>option\<close>, \<open>None\<close> standing for
  \<open>undefined\<close> (a member that is \<open>null\<close> behaves alike, but for the word in the runtime's
  message). The \<open>Tag\<close> member of an event is kept by the names of its tags.
\<close>

record RelatedAttribute =
  ra_id :: string
  ra_value :: string
  ra_type :: string
  ra_event_id :: string

record PartialEvent =
  pe_info :: "string option"

record MispAttribute =
  a_id :: "string option"
  a_event_id :: string
  a_type :: string
  a_category :: string
  a_value :: string
  a_to_ids :: bool
  a_Event :: "PartialEvent option"
  a_RelatedAttribute :: "RelatedAttribute list option"

record RelatedEvent =
  re_id :: string
  re_info :: string

record MispEvent =
  e_id :: "string option"
  e_info :: string
  e_Tag :: "string list option"
  e_Attribute :: "MispAttribute list option"
  e_RelatedEvent :: "RelatedEvent list option"

subsection \<open>Failures of a client call\<close>

text \<open>
  The configured timeout is a JavaScript number, \<open>parseInt(...) * 1000\<close> in
  \<open>config.ts\<close>: \<open>NaN\<close> for a text that is no number; an integer, which a double holds
  exactly up to \<open>2^53\<close> in magnitude; or a number beyond that magnitude, up to
  \<open>Infinity\<close> and down to \<open>-Infinity\<close>, which is kept here by the text JavaScript
  prints for it. \<open>number_text\<close> is \<open>String(x)\<close>, as a template literal renders it.
\<close>

datatype js_number = NaN | Number int | Large string

definition number_text :: "js_number \<Rightarrow> string" where
  "number_text x =
     (case x of
        NaN \<Rightarrow> ''NaN''
      | Number i \<Rightarrow> if i < 0 then ''-'' @ string_of_nat (nat (- i)) else string_of_nat (nat i)
      | Large printed \<Rightarrow> printed)"

text \<open>
  One constructor per \<open>throw\<close> of \<open>MispClient.request\<close>, named after the
  classification it stands for, and the errors of the runtime that the client passes on
  as they are: the \<open>TypeError\<close>s for a member read from \<open>undefined\<close> or from \<open>null\<close>
  and for a call of a member that is not a function, and the error with which
  \<open>response.text()\<close> rejects. The message of a runtime error is not empty;
  \<open>BodyReadFailure\<close> keeps it by its first character and the rest.
  \<open>error_message\<close> is the \<open>message\<close> of the thrown \<open>Error\<close>.
\<close>

datatype client_error =
    Timeout js_number
  | TransportFailure string
  | StatusError nat string
  | MalformedResponse string
  | UndefinedRead string
  | NullRead string
  | NotAFunction string
  | BodyReadFailure char string

definition statusMessages :: "nat \<Rightarrow> string option" where
  "statusMessages status =
     (if status = 401 then Some ''Invalid API key or unauthorized''
      else if status = 403 then Some ''Insufficient permissions''
      else if status = 404 then Some ''Resource not found''
      else if status = 405 then Some ''Method not allowed''
      else None)"

definition status_prefix :: "nat \<Rightarrow> string" where
  "status_prefix status =
     (case statusMessages status of
        Some m \<Rightarrow> m
      | None \<Rightarrow> ''HTTP '' @ string_of_nat status)"

fun error_message :: "client_error \<Rightarrow> string" where
  "error_message (Timeout ms) = ''MISP API timeout after '' @ number_text ms @ ''ms''"
| "error_message (TransportFailure m) = ''MISP API request failed: '' @ m"
| "error_message (StatusError status detail) = status_prefix status @ '': '' @ detail"
| "error_message (MalformedResponse t) = ''Failed to parse MISP response as JSON: '' @ t"
| "error_message (UndefinedRead member) =
     ''Cannot read properties of undefined (reading '' @ [CHR 0x27] @ member @ [CHR 0x27] @ '')''"
| "error_message (NullRead member) =
     ''Cannot read properties of null (reading '' @ [CHR 0x27] @ member @ [CHR 0x27] @ '')''"
| "error_message (NotAFunction f) = f @ '' is not a function''"
| "error_message (BodyReadFailure c cs) = c # cs"

section \<open>The gateway client: \<open>client.ts\<close>\<close>

subsection \<open>Requests and what the platform answers\<close>

text \<open>
  A request body is the object handed to \<open>JSON.stringify\<close>; \<open>JObj\<close> keeps the members
  in the order the code assigns them.
\<close>

datatype json = JNum int | JStr string | JBool bool | JArr "json list" | JObj "(string \<times> json) list"

record MispConfig =
  cfg_url :: string
  cfg_apiKey :: string
  cfg_verifySsl :: bool
  cfg_timeout :: js_number

record api_call =
  ac_method :: string
  ac_url :: string
  ac_authorization :: string
  ac_body :: "json option"

text \<open>
  The value a rejected \<open>fetch\<close> throws: an \<open>Error\<close> with its \<open>name\<close> and
  \<open>message\<close>, or any other value with its \<open>String(err)\<close>.
\<close>

datatype thrown = ErrorObject string string | OtherValue string

text \<open>
  How \<open>fetch\<close> and the read of the body end when nothing aborts them: \<open>fetch\<close> is
  rejected; or the status line and the headers arrive and \<open>response.text()\<close> delivers
  the body text; or they arrive and \<open>response.text()\<close> rejects with a runtime error
  (the connection is lost while the body is read), kept by its message. A read of the
  body that never ends has no outcome here: the call then never returns, for no timer
  runs by then.
\<close>

datatype fetch_outcome = Rejected thrown | Responded nat string | BodyLost nat char string

text \<open>
  What the network does with one request: how many milliseconds pass until \<open>fetch\<close>
  settles by itself, how the request ends then, and how many more milliseconds the read
  of the body takes.
\<close>

record transport =
  latency :: nat
  settles :: fetch_outcome
  body_latency :: nat

text \<open>
  What \<open>JSON.parse(text)\<close> yields: \<open>null\<close>, or a value seen through the members the
  client reads from it (a number, a string, a boolean and an array have none of them).
  A member that is absent or \<open>null\<close> is \<open>None\<close>, and so is a \<open>response\<close>,
  \<open>message\<close> or \<open>errors\<close> member with another falsy value, which \<open>||\<close> treats
  alike. \<open>response\<close> is an array (\<open>ResponseArray\<close>), each item \<open>null\<close> or seen
  through its \<open>Event\<close> member, or a value that is no array (\<open>ResponseObject\<close>), seen
  through its \<open>Attribute\<close> member, an array of attributes when it is there.
\<close>

datatype response_item = NullItem | Item "MispEvent option"

datatype response_member =
    ResponseArray "response_item list"
  | ResponseObject "MispAttribute list option"

record parsed_body =
  pb_response :: "response_member option"
  pb_Event :: "MispEvent option"
  pb_Attribute :: "MispAttribute option"
  pb_message :: "string option"
  pb_errors :: "string option"

datatype parsed = JsonNull | JsonValue parsed_body

text \<open>Reading a member of the parsed value: a \<open>TypeError\<close> when the value is \<open>null\<close>.\<close>

definition read_member :: "(parsed_body \<Rightarrow> 'a) \<Rightarrow> string \<Rightarrow> parsed \<Rightarrow> client_error + 'a" where
  "read_member get name data =
     (case data of JsonNull \<Rightarrow> Inl (NullRead name) | JsonValue body \<Rightarrow> Inr (get body))"

text \<open>
  The surroundings of the client: \<open>JSON.parse\<close> (\<open>None\<close> when it throws) and the
  network, which answers the \<open>n\<close>-th request of an invocation.
\<close>

record world =
  JSON_parse :: "string \<Rightarrow> parsed option"
  network :: "nat \<Rightarrow> api_call \<Rightarrow> transport"

subsection \<open>\<open>MispClient.request\<close>\<close>

text \<open>
  The delay \<open>setTimeout\<close> applies: a delay below 1, above 2147483647 or \<open>NaN\<close> is set
  to 1 millisecond. A number beyond \<open>2^53\<close> in magnitude is below 1 or above 2147483647.
\<close>

definition timer_delay :: "js_number \<Rightarrow> nat" where
  "timer_delay x =
     (case x of
        NaN \<Rightarrow> 1
      | Number i \<Rightarrow> if i < 1 \<or> 2147483647 < i then 1 else nat i
      | Large printed \<Rightarrow> 1)"

text \<open>
  \<open>setTimeout(() => controller.abort(), this.timeout)\<close> around \<open>fetch\<close>: when the timer
  fires while \<open>fetch\<close> is pending, the abort makes it reject with an \<open>AbortError\<close>;
  otherwise \<open>fetch\<close> settles and the \<open>finally\<close> clause clears the timer, so that no
  timer runs while the body is read: \<open>body_latency\<close> has no part in the outcome.
\<close>

definition abort_error :: thrown where
  "abort_error = ErrorObject ''AbortError'' ''This operation was aborted''"

definition fetch :: "js_number \<Rightarrow> transport \<Rightarrow> fetch_outcome" where
  "fetch timeout t =
     (if timer_delay timeout < latency t then Rejected abort_error else settles t)"

definition response_ok :: "nat \<Rightarrow> bool" where
  "response_ok status \<longleftrightarrow> 200 \<le> status \<and> status \<le> 299"

text \<open>
  \<open>parsed.message || parsed.errors || text\<close>, and \<open>text\<close> when parsing throws or
  yields \<open>null\<close> (the read of \<open>message\<close> raises inside the \<open>try\<close>).
\<close>

definition error_detail :: "world \<Rightarrow> string \<Rightarrow> string" where
  "error_detail w text =
     (case JSON_parse w text of
        None \<Rightarrow> text
      | Some JsonNull \<Rightarrow> text
      | Some (JsonValue body) \<Rightarrow> js_or (pb_message body) (js_or (pb_errors body) text))"

text \<open>
  The part of \<open>request\<close> that both overloads share: up to the body text.
  \<open>await response.text()\<close> stands after the \<open>try\<close> around \<open>fetch\<close> and before the
  test of \<open>response.ok\<close>: its error is not caught, whatever the status.
\<close>

definition request_text :: "world \<Rightarrow> MispConfig \<Rightarrow> nat \<Rightarrow> api_call \<Rightarrow> client_error + string" where
  "request_text w cfg n call =
     (case fetch (cfg_timeout cfg) (network w n call) of
        Rejected (ErrorObject name message) \<Rightarrow>
          if name = ''AbortError'' then Inl (Timeout (cfg_timeout cfg))
          else Inl (TransportFailure message)
      | Rejected (OtherValue s) \<Rightarrow> Inl (TransportFailure s)
      | BodyLost status c cs \<Rightarrow> Inl (BodyReadFailure c cs)
      | Responded status text \<Rightarrow>
          if \<not> response_ok status then Inl (StatusError status (error_detail w text))
          else Inr text)"

text \<open>The overload with \<open>rawResponse: true\<close>.\<close>

definition request_raw :: "world \<Rightarrow> MispConfig \<Rightarrow> nat \<Rightarrow> api_call \<Rightarrow> client_error + string" where
  "request_raw w cfg n call = request_text w cfg n call"

text \<open>The overload that parses; \<open>text.slice(0, 200)\<close> is \<open>take 200\<close>.\<close>

definition request :: "world \<Rightarrow> MispConfig \<Rightarrow> nat \<Rightarrow> api_call \<Rightarrow> client_error + parsed" where
  "request w cfg n call =
     (case request_text w cfg n call of
        Inl err \<Rightarrow> Inl err
      | Inr text \<Rightarrow>
          (case JSON_parse w text of
             None \<Rightarrow> Inl (MalformedResponse (take 200 text))
           | Some data \<Rightarrow> Inr data))"

definition make_call :: "MispConfig \<Rightarrow> string \<Rightarrow> string \<Rightarrow> json option \<Rightarrow> api_call" where
  "make_call cfg method path body =
     \<lparr>ac_method = method, ac_url = cfg_url cfg @ path, ac_authorization = cfg_apiKey cfg,
      ac_body = body\<rparr>"

text \<open>\<open>if (c) body.k = v\<close>\<close>

definition put_if :: "bool \<Rightarrow> string \<Rightarrow> json \<Rightarrow> (string \<times> json) list \<Rightarrow> (string \<times> json) list" where
  "put_if c k v body = (if c then body @ [(k, v)] else body)"

definition put_string :: "string option \<Rightarrow> string \<Rightarrow> (string \<times> json) list \<Rightarrow> (string \<times> json) list" where
  "put_string v k body = (case v of None \<Rightarrow> body | Some s \<Rightarrow> put_if (s \<noteq> []) k (JStr s) body)"

definition json_member :: "json \<Rightarrow> string \<Rightarrow> json option" where
  "json_member j k = (case j of JObj ms \<Rightarrow> map_of ms k | _ \<Rightarrow> None)"

subsection \<open>Event methods\<close>

record event_search_params =
  es_value :: "string option"
  es_type :: "string option"
  es_category :: "string option"
  es_tags :: "string list option"
  es_eventid :: "string option"
  es_org :: "string option"
  es_dateFrom :: "string option"
  es_dateTo :: "string option"
  es_last :: "string option"
  es_published :: "bool option"
  es_limit :: "int option"
  es_page :: "int option"

definition searchEvents_body :: "event_search_params \<Rightarrow> json" where
  "searchEvents_body params =
     (let b0 = [(''returnFormat'', JStr ''json''),
                (''limit'', JNum (case es_limit params of None \<Rightarrow> 50 | Some l \<Rightarrow> l))];
          b1 = put_string (es_value params) ''value'' b0;
          b2 = put_string (es_type params) ''type'' b1;
          b3 = put_string (es_category params) ''category'' b2;
          b4 = (case es_tags params of None \<Rightarrow> b3
                | Some ts \<Rightarrow> put_if True ''tags'' (JArr (map JStr ts)) b3);
          b5 = put_string (es_eventid params) ''eventid'' b4;
          b6 = put_string (es_org params) ''org'' b5;
          b7 = put_string (es_dateFrom params) ''from'' b6;
          b8 = put_string (es_dateTo params) ''to'' b7;
          b9 = put_string (es_last params) ''last'' b8;
          b10 = (case es_published params of None \<Rightarrow> b9
                 | Some pub \<Rightarrow> put_if True ''published'' (JNum (if pub then 1 else 0)) b9);
          b11 = (case es_page params of None \<Rightarrow> b10
                 | Some pg \<Rightarrow> put_if (pg \<noteq> 0) ''page'' (JNum pg) b10)
      in JObj b11)"

definition searchEvents_call :: "MispConfig \<Rightarrow> event_search_params \<Rightarrow> api_call" where
  "searchEvents_call cfg params =
     make_call cfg ''POST'' ''/events/restSearch'' (Some (searchEvents_body params))"

text \<open>
  \<open>(data.response || []).map((r) => r.Event)\<close>: reading \<open>response\<close> from \<open>null\<close>
  raises, \<open>map\<close> is not a function of the object an attribute search answers with, and
  reading \<open>Event\<close> from an item that is \<open>null\<close> raises.
\<close>

definition item_Event :: "response_item \<Rightarrow> MispEvent option" where
  "item_Event r = (case r of NullItem \<Rightarrow> None | Item ev \<Rightarrow> ev)"

definition searchEvents ::
  "world \<Rightarrow> MispConfig \<Rightarrow> nat \<Rightarrow> event_search_params \<Rightarrow> client_error + MispEvent option list" where
  "searchEvents w cfg n params =
     (case request w cfg n (searchEvents_call cfg params) of
        Inl err \<Rightarrow> Inl err
      | Inr data \<Rightarrow>
          (case read_member pb_response ''response'' data of
             Inl err \<Rightarrow> Inl err
           | Inr None \<Rightarrow> Inr []
           | Inr (Some (ResponseArray items)) \<Rightarrow>
               if NullItem \<in> set items then Inl (NullRead ''Event'')
               else Inr (map item_Event items)
           | Inr (Some (ResponseObject _)) \<Rightarrow>
               Inl (NotAFunction ''(data.response || []).map'')))"

definition getEvent_call :: "MispConfig \<Rightarrow> string \<Rightarrow> api_call" where
  "getEvent_call cfg eventId = make_call cfg ''GET'' (''/events/view/'' @ eventId) None"

definition getEvent ::
  "world \<Rightarrow> MispConfig \<Rightarrow> nat \<Rightarrow> string \<Rightarrow> client_error + MispEvent option" where
  "getEvent w cfg n eventId =
     (case request w cfg n (getEvent_call cfg eventId) of
        Inl err \<Rightarrow> Inl err
      | Inr data \<Rightarrow> read_member pb_Event ''Event'' data)"

definition tagEvent_call :: "MispConfig \<Rightarrow> string \<Rightarrow> string \<Rightarrow> api_call" where
  "tagEvent_call cfg eventId tag =
     make_call cfg ''POST'' ''/events/addTag''
       (Some (JObj [(''event'', JStr eventId), (''tag'', JStr tag)]))"

definition tagEvent ::
  "world \<Rightarrow> MispConfig \<Rightarrow> nat \<Rightarrow> string \<Rightarrow> string \<Rightarrow> client_error + parsed" where
  "tagEvent w cfg n eventId tag = request w cfg n (tagEvent_call cfg eventId tag)"

text \<open>
  \<open>for (const tag of params.tags) await ...\<close>: one request per tag, in order; a request
  that throws ends the loop and the method. The calls issued are logged behind
  \<open>calls\<close>; \<open>n\<close> is the number of requests made before.
\<close>

fun tag_each ::
  "world \<Rightarrow> MispConfig \<Rightarrow> nat \<Rightarrow> (string \<Rightarrow> api_call) \<Rightarrow> string list \<Rightarrow> api_call list
     \<Rightarrow> (client_error + unit) \<times> api_call list" where
  "tag_each w cfg n call_of [] calls = (Inr (), calls)"
| "tag_each w cfg n call_of (tag # tags) calls =
     (case request w cfg n (call_of tag) of
        Inl err \<Rightarrow> (Inl err, calls @ [call_of tag])
      | Inr _ \<Rightarrow> tag_each w cfg (Suc n) call_of tags (calls @ [call_of tag]))"

record create_event_params =
  ce_info :: string
  ce_distribution :: int
  ce_threat_level_id :: int
  ce_analysis :: int
  ce_date :: "string option"
  ce_tags :: "string list option"
  ce_published :: "bool option"

definition createEvent_call :: "MispConfig \<Rightarrow> create_event_params \<Rightarrow> api_call" where
  "createEvent_call cfg params =
     (let e0 = [(''info'', JStr (ce_info params)),
                (''distribution'', JNum (ce_distribution params)),
                (''threat_level_id'', JNum (ce_threat_level_id params)),
                (''analysis'', JNum (ce_analysis params))];
          e1 = put_string (ce_date params) ''date'' e0;
          e2 = put_if (ce_published params = Some True) ''published'' (JBool True) e1
      in make_call cfg ''POST'' ''/events/add'' (Some (JObj [(''Event'', JObj e2)])))"

text \<open>\<open>params.tags && params.tags.length > 0\<close>\<close>

definition tags_requested :: "string list option \<Rightarrow> bool" where
  "tags_requested tags = (case tags of None \<Rightarrow> False | Some ts \<Rightarrow> length ts > 0)"

definition tags_of :: "string list option \<Rightarrow> string list" where
  "tags_of tags = (case tags of None \<Rightarrow> [] | Some ts \<Rightarrow> ts)"

text \<open>
  The result and the requests issued, in order. \<open>data.Event\<close> is read in every
  path, and raises when the answer is \<open>null\<close>; reading \<open>data.Event.id\<close> when the answer
  has no \<open>Event\<close> member raises too, and happens only when tags are requested.
\<close>

definition createEvent ::
  "world \<Rightarrow> MispConfig \<Rightarrow> nat \<Rightarrow> create_event_params
     \<Rightarrow> (client_error + MispEvent option) \<times> api_call list" where
  "createEvent w cfg n params =
     (let c = createEvent_call cfg params in
      case request w cfg n c of
        Inl err \<Rightarrow> (Inl err, [c])
      | Inr data \<Rightarrow>
          (case read_member pb_Event ''Event'' data of
             Inl err \<Rightarrow> (Inl err, [c])
           | Inr event \<Rightarrow>
               if tags_requested (ce_tags params) then
                 (case event of
                    None \<Rightarrow> (Inl (UndefinedRead ''id''), [c])
                  | Some ev \<Rightarrow>
                      if truthy (e_id ev) then
                        (let eid = js_or (e_id ev) [] in
                         case tag_each w cfg (Suc n) (tagEvent_call cfg eid)
                                (tags_of (ce_tags params)) [c] of
                           (Inl err, calls) \<Rightarrow> (Inl err, calls)
                         | (Inr _, calls) \<Rightarrow>
                             (getEvent w cfg (n + length calls) eid,
                              calls @ [getEvent_call cfg eid]))
                      else (Inr event, [c]))
               else (Inr event, [c])))"

subsection \<open>Attribute methods\<close>

record search_params =
  sp_value :: "string option"
  sp_type :: "string option"
  sp_category :: "string option"
  sp_tags :: "string list option"
  sp_to_ids :: "bool option"
  sp_includeCorrelations :: "bool option"
  sp_last :: "string option"
  sp_limit :: "int option"

definition searchAttributes_body :: "search_params \<Rightarrow> json" where
  "searchAttributes_body params =
     (let b0 = [(''returnFormat'', JStr ''json''),
                (''limit'', JNum (case sp_limit params of None \<Rightarrow> 50 | Some l \<Rightarrow> l))];
          b1 = put_string (sp_value params) ''value'' b0;
          b2 = put_string (sp_type params) ''type'' b1;
          b3 = put_string (sp_category params) ''category'' b2;
          b4 = (case sp_tags params of None \<Rightarrow> b3
                | Some ts \<Rightarrow> put_if True ''tags'' (JArr (map JStr ts)) b3);
          b5 = (case sp_to_ids params of None \<Rightarrow> b4
                | Some t \<Rightarrow> put_if True ''to_ids'' (JNum (if t then 1 else 0)) b4);
          b6 = put_if (sp_includeCorrelations params = Some True) ''includeCorrelations''
                 (JNum 1) b5;
          b7 = put_string (sp_last params) ''last'' b6
      in JObj b7)"

definition searchAttributes_call :: "MispConfig \<Rightarrow> search_params \<Rightarrow> api_call" where
  "searchAttributes_call cfg params =
     make_call cfg ''POST'' ''/attributes/restSearch'' (Some (searchAttributes_body params))"

text \<open>
  \<open>data.response?.Attribute || []\<close>: the \<open>?.\<close> guards \<open>response\<close>, not \<open>data\<close>, so
  reading \<open>response\<close> from \<open>null\<close> raises.
\<close>

definition searchAttributes ::
  "world \<Rightarrow> MispConfig \<Rightarrow> nat \<Rightarrow> search_params \<Rightarrow> client_error + MispAttribute list" where
  "searchAttributes w cfg n params =
     (case request w cfg n (searchAttributes_call cfg params) of
        Inl err \<Rightarrow> Inl err
      | Inr data \<Rightarrow>
          (case read_member pb_response ''response'' data of
             Inl err \<Rightarrow> Inl err
           | Inr (Some (ResponseObject (Some attrs))) \<Rightarrow> Inr attrs
           | Inr _ \<Rightarrow> Inr []))"

record add_attribute_params =
  ap_type :: string
  ap_value :: string
  ap_category :: "string option"
  ap_to_ids :: "bool option"
  ap_comment :: "string option"
  ap_distribution :: "int option"
  ap_tags :: "string list option"

definition addAttribute_call :: "MispConfig \<Rightarrow> string \<Rightarrow> add_attribute_params \<Rightarrow> api_call" where
  "addAttribute_call cfg eventId params =
     (let a0 = [(''type'', JStr (ap_type params)), (''value'', JStr (ap_value params))];
          a1 = put_string (ap_category params) ''category'' a0;
          a2 = (case ap_to_ids params of None \<Rightarrow> a1
                | Some t \<Rightarrow> put_if True ''to_ids'' (JBool t) a1);
          a3 = put_string (ap_comment params) ''comment'' a2;
          a4 = (case ap_distribution params of None \<Rightarrow> a3
                | Some d \<Rightarrow> put_if True ''distribution'' (JNum d) a3)
      in make_call cfg ''POST'' (''/attributes/add/'' @ eventId) (Some (JObj a4)))"

definition addTag_call :: "MispConfig \<Rightarrow> string \<Rightarrow> string \<Rightarrow> api_call" where
  "addTag_call cfg attributeId tag =
     make_call cfg ''POST'' ''/attributes/addTag''
       (Some (JObj [(''attribute'', JStr attributeId), (''tag'', JStr tag)]))"

text \<open>
  The result and the requests issued, in order. \<open>data.Attribute\<close> is read in every
  path, and raises when the answer is \<open>null\<close>; \<open>data.Attribute?.id\<close> does not raise
  when the member is absent. The method ends with \<open>return data.Attribute\<close> whatever
  the tag loop did, unless a tag request threw.
\<close>

definition addAttribute ::
  "world \<Rightarrow> MispConfig \<Rightarrow> nat \<Rightarrow> string \<Rightarrow> add_attribute_params
     \<Rightarrow> (client_error + MispAttribute option) \<times> api_call list" where
  "addAttribute w cfg n eventId params =
     (let c = addAttribute_call cfg eventId params in
      case request w cfg n c of
        Inl err \<Rightarrow> (Inl err, [c])
      | Inr data \<Rightarrow>
          (case read_member pb_Attribute ''Attribute'' data of
             Inl err \<Rightarrow> (Inl err, [c])
           | Inr attribute \<Rightarrow>
               if tags_requested (ap_tags params)
                  \<and> truthy (case attribute of None \<Rightarrow> None | Some a \<Rightarrow> a_id a) then
                 (let aid = js_or (case attribute of None \<Rightarrow> None | Some a \<Rightarrow> a_id a) [] in
                  case tag_each w cfg (Suc n) (addTag_call cfg aid) (tags_of (ap_tags params))
                         [c] of
                    (Inl err, calls) \<Rightarrow> (Inl err, calls)
                  | (Inr _, calls) \<Rightarrow> (Inr attribute, calls))
               else (Inr attribute, [c])))"

section \<open>A JavaScript \<open>Map\<close> with string keys\<close>

text \<open>
  A \<open>Map\<close> iterates in insertion order and \<open>set\<close> on a present key replaces the
  value where it stands, so the map is a list of pairs with distinct keys.
\<close>

type_synonym 'v js_map = "(string \<times> 'v) list"

definition map_has :: "'v js_map \<Rightarrow> string \<Rightarrow> bool" where
  "map_has m k = (k \<in> set (map fst m))"

fun map_set :: "'v js_map \<Rightarrow> string \<Rightarrow> 'v \<Rightarrow> 'v js_map" where
  "map_set [] k v = [(k, v)]"
| "map_set ((k', v') # m) k v = (if k' = k then (k, v) # m else (k', v') # map_set m k v)"

text \<open>\<open>m.get(k)!\<close> followed by a mutation of the entry found; nothing changes when the key is absent.\<close>

fun map_modify :: "'v js_map \<Rightarrow> string \<Rightarrow> ('v \<Rightarrow> 'v) \<Rightarrow> 'v js_map" where
  "map_modify [] k f = []"
| "map_modify ((k', v') # m) k f =
     (if k' = k then (k', f v') # m else (k', v') # map_modify m k f)"

definition map_values :: "'v js_map \<Rightarrow> 'v list" where
  "map_values m = map snd m"

definition map_size :: "'v js_map \<Rightarrow> nat" where
  "map_size m = length m"

section \<open>Tool results\<close>

text \<open>
  What a tool handler returns: a plain text message, the object that is serialised with
  \<open>JSON.stringify\<close>, or an error message flagged \<open>isError\<close>.
\<close>

datatype 'a tool_result = ToolText string | ToolJson 'a | ToolError string

section \<open>Value correlation: \<open>misp_correlate\<close>\<close>

text \<open>The argument \<open>{ value, includeCorrelations: true }\<close> both correlation tools pass.\<close>

definition correlation_search :: "string \<Rightarrow> search_params" where
  "correlation_search v =
     \<lparr>sp_value = Some v, sp_type = None, sp_category = None, sp_tags = None,
      sp_to_ids = None, sp_includeCorrelations = Some True, sp_last = None,
      sp_limit = None\<rparr>"

record attribute_summary =
  as_id :: "string option"
  as_type :: string
  as_category :: string
  as_value :: string

record event_group =
  eg_event_id :: string
  eg_event_info :: string
  eg_attributes :: "attribute_summary list"

record correlation =
  co_value :: string
  co_type :: string
  co_event_id :: string

record correlate_report =
  searched_value :: string
  found_in_events :: "event_group list"
  total_events :: nat
  total_attributes :: nat
  correlations :: "correlation list option"

text \<open>\<open>attr.Event?.info || "Unknown"\<close>\<close>

definition event_info_of :: "MispAttribute \<Rightarrow> string" where
  "event_info_of attr =
     (case a_Event attr of
        None \<Rightarrow> ''Unknown''
      | Some ev \<Rightarrow> js_or (pe_info ev) ''Unknown'')"

definition summary_of :: "MispAttribute \<Rightarrow> attribute_summary" where
  "summary_of attr =
     \<lparr>as_id = a_id attr, as_type = a_type attr, as_category = a_category attr,
      as_value = a_value attr\<rparr>"

text \<open>The body of the first loop: open the event's group when it is new, then push.\<close>

definition group_attribute :: "event_group js_map \<Rightarrow> MispAttribute \<Rightarrow> event_group js_map" where
  "group_attribute eventMap attr =
     (let eid = a_event_id attr;
          m = (if \<not> map_has eventMap eid
               then map_set eventMap eid
                      \<lparr>eg_event_id = eid, eg_event_info = event_info_of attr,
                       eg_attributes = []\<rparr>
               else eventMap)
      in map_modify m eid
           (\<lambda>g. g\<lparr>eg_attributes := eg_attributes g @ [summary_of attr]\<rparr>))"

definition correlation_of :: "RelatedAttribute \<Rightarrow> correlation" where
  "correlation_of rel =
     \<lparr>co_value = ra_value rel, co_type = ra_type rel, co_event_id = ra_event_id rel\<rparr>"

text \<open>The body of the second loop.\<close>

definition collect_related :: "correlation list \<Rightarrow> MispAttribute \<Rightarrow> correlation list" where
  "collect_related acc attr =
     (case a_RelatedAttribute attr of
        None \<Rightarrow> acc
      | Some rels \<Rightarrow> foldl (\<lambda>c rel. c @ [correlation_of rel]) acc rels)"

definition correlate_aggregate :: "string \<Rightarrow> MispAttribute list \<Rightarrow> correlate_report" where
  "correlate_aggregate v attributes =
     (let eventMap = foldl group_attribute [] attributes;
          cs = foldl collect_related [] attributes
      in \<lparr>searched_value = v,
          found_in_events = map_values eventMap,
          total_events = map_size eventMap,
          total_attributes = length attributes,
          correlations = (if length cs > 0 then Some cs else None)\<rparr>)"

text \<open>
  The handler. \<open>search\<close> is \<open>client.searchAttributes\<close>, the client being the
  argument of \<open>registerCorrelationTools\<close>; its first argument counts the client calls
  the invocation has made before.
\<close>

definition misp_correlate ::
  "(nat \<Rightarrow> search_params \<Rightarrow> client_error + MispAttribute list) \<Rightarrow> string
     \<Rightarrow> correlate_report tool_result" where
  "misp_correlate search v =
     (case search 0 (correlation_search v) of
        Inl err \<Rightarrow> ToolError (''Error correlating value: '' @ error_message err)
      | Inr attributes \<Rightarrow>
          if length attributes = 0
          then ToolText (''No results found for '' @ quoted v @ '' in MISP.'')
          else ToolJson (correlate_aggregate v attributes))"

section \<open>Event-relation discovery: \<open>misp_get_related_events\<close>\<close>

record related_entry =
  rl_event_id :: string
  rl_event_info :: string
  overlapping_iocs :: "string list"
  correlation_count :: nat

record related_report =
  rr_event_id :: string
  rr_event_info :: string
  related_events :: "related_entry list"
  total_related :: nat

text \<open>The entries seeded from \<open>event.RelatedEvent\<close>.\<close>

definition seed_entry :: "related_entry js_map \<Rightarrow> RelatedEvent \<Rightarrow> related_entry js_map" where
  "seed_entry relatedMap rel =
     map_set relatedMap (re_id rel)
       \<lparr>rl_event_id = re_id rel, rl_event_info = re_info rel, overlapping_iocs = [],
        correlation_count = 0\<rparr>"

definition seed_related :: "MispEvent \<Rightarrow> related_entry js_map" where
  "seed_related event =
     (case e_RelatedEvent event of
        None \<Rightarrow> []
      | Some rels \<Rightarrow> foldl seed_entry [] rels)"

text \<open>\<open>eventAttributes.filter((a) => a.to_ids).slice(0, 20).map((a) => a.value)\<close>\<close>

definition valuesToSearch :: "MispAttribute list \<Rightarrow> string list" where
  "valuesToSearch eventAttributes = map a_value (take 20 (filter a_to_ids eventAttributes))"

text \<open>What the loop does to the entry of a match: note the value once, count the match.\<close>

definition note_match :: "string \<Rightarrow> related_entry \<Rightarrow> related_entry" where
  "note_match v entry =
     (let e1 = (if v \<notin> set (overlapping_iocs entry)
                then entry\<lparr>overlapping_iocs := overlapping_iocs entry @ [v]\<rparr>
                else entry)
      in e1\<lparr>correlation_count := correlation_count e1 + 1\<rparr>)"

text \<open>The body of the loop over the matches of one searched value.\<close>

definition record_match ::
  "string \<Rightarrow> string \<Rightarrow> related_entry js_map \<Rightarrow> MispAttribute \<Rightarrow> related_entry js_map" where
  "record_match eventId v relatedMap match =
     (if a_event_id match \<noteq> eventId then
        (let m = (if \<not> map_has relatedMap (a_event_id match)
                  then map_set relatedMap (a_event_id match)
                         \<lparr>rl_event_id = a_event_id match,
                          rl_event_info = event_info_of match,
                          overlapping_iocs = [], correlation_count = 0\<rparr>
                  else relatedMap)
         in map_modify m (a_event_id match) (note_match v))
      else relatedMap)"

text \<open>
  The loop over \<open>valuesToSearch\<close>: one \<open>searchAttributes\<close> call per value, in order;
  a call that throws ends the loop and the handler. \<open>n\<close> counts the client calls made
  before; the arguments of the searches issued are logged behind \<open>calls\<close>.
\<close>

fun search_values ::
  "(nat \<Rightarrow> search_params \<Rightarrow> client_error + MispAttribute list) \<Rightarrow> string \<Rightarrow> nat
     \<Rightarrow> string list \<Rightarrow> related_entry js_map \<Rightarrow> search_params list
     \<Rightarrow> (client_error + related_entry js_map) \<times> search_params list" where
  "search_values search eventId n [] relatedMap calls = (Inr relatedMap, calls)"
| "search_values search eventId n (v # vs) relatedMap calls =
     (case search n (correlation_search v) of
        Inl err \<Rightarrow> (Inl err, calls @ [correlation_search v])
      | Inr matches \<Rightarrow>
          search_values search eventId (Suc n) vs
            (foldl (record_match eventId v) relatedMap matches)
            (calls @ [correlation_search v]))"

text \<open>
  \<open>Array.prototype.sort\<close> with a comparator: the result is ordered by the comparator
  and, the sort being stable, elements that compare equal keep their order. Insertion
  from the right, before the first element that does not compare smaller, computes it.
\<close>

fun insert_by :: "('a \<Rightarrow> 'a \<Rightarrow> int) \<Rightarrow> 'a \<Rightarrow> 'a list \<Rightarrow> 'a list" where
  "insert_by cmp x [] = [x]"
| "insert_by cmp x (y # ys) = (if cmp x y \<le> 0 then x # y # ys else y # insert_by cmp x ys)"

definition js_sort :: "('a \<Rightarrow> 'a \<Rightarrow> int) \<Rightarrow> 'a list \<Rightarrow> 'a list" where
  "js_sort cmp xs = foldr (insert_by cmp) xs []"

text \<open>\<open>(a, b) => b.correlation_count - a.correlation_count\<close>\<close>

definition by_count_desc :: "related_entry \<Rightarrow> related_entry \<Rightarrow> int" where
  "by_count_desc a b = int (correlation_count b) - int (correlation_count a)"

text \<open>
  The handler, with the searches it issues. \<open>get\<close> is \<open>client.getEvent\<close> and
  \<open>search\<close> is \<open>client.searchAttributes\<close>.
\<close>

definition misp_get_related_events ::
  "(nat \<Rightarrow> string \<Rightarrow> client_error + MispEvent option)
     \<Rightarrow> (nat \<Rightarrow> search_params \<Rightarrow> client_error + MispAttribute list) \<Rightarrow> string
     \<Rightarrow> related_report tool_result \<times> search_params list" where
  "misp_get_related_events get search eventId =
     (case get 0 eventId of
        Inl err \<Rightarrow> (ToolError (''Error finding related events: '' @ error_message err), [])
      | Inr None \<Rightarrow>
          (ToolError (''Error finding related events: ''
                      @ error_message (UndefinedRead ''Attribute'')), [])
      | Inr (Some event) \<Rightarrow>
          (let eventAttributes = (case e_Attribute event of None \<Rightarrow> [] | Some as \<Rightarrow> as) in
           if length eventAttributes = 0
           then (ToolText (''Event '' @ eventId @ '' has no attributes to correlate.''), [])
           else
             (case search_values search eventId 1 (valuesToSearch eventAttributes)
                     (seed_related event) [] of
                (Inl err, calls) \<Rightarrow>
                  (ToolError (''Error finding related events: '' @ error_message err), calls)
              | (Inr relatedMap, calls) \<Rightarrow>
                  (let related = js_sort by_count_desc (map_values relatedMap) in
                   (ToolJson \<lparr>rr_event_id = eventId, rr_event_info = e_info event,
                              related_events = related, total_related = length related\<rparr>,
                    calls)))))"

section \<open>The bulk executor: \<open>misp_add_attributes_bulk\<close>\<close>

record bulk_item =
  bi_type :: string
  bi_value :: string
  bi_category :: "string option"
  bi_toIds :: "bool option"
  bi_comment :: "string option"

record bulk_row =
  br_value :: string
  br_type :: string
  br_id :: "string option"
  br_error :: "string option"

record bulk_report =
  rep_total :: nat
  rep_succeeded :: nat
  rep_failed :: nat
  rep_results :: "bulk_row list"

definition bulk_params :: "bulk_item \<Rightarrow> add_attribute_params" where
  "bulk_params attr =
     \<lparr>ap_type = bi_type attr, ap_value = bi_value attr, ap_category = bi_category attr,
      ap_to_ids = bi_toIds attr, ap_comment = bi_comment attr, ap_distribution = None,
      ap_tags = None\<rparr>"

text \<open>
  The inner \<open>try\<close>/\<open>catch\<close> for one item. \<open>add\<close> is \<open>client.addAttribute\<close>. Reading
  \<open>created.id\<close> when the client returned \<open>undefined\<close> raises a \<open>TypeError\<close> inside the
  \<open>try\<close>, so it ends in the \<open>catch\<close> like a failure of the call (when the client
  returned \<open>null\<close>, the message of the \<open>TypeError\<close> names \<open>null\<close> instead).
\<close>

definition add_one ::
  "(nat \<Rightarrow> string \<Rightarrow> add_attribute_params \<Rightarrow> client_error + MispAttribute option)
     \<Rightarrow> string \<Rightarrow> nat \<Rightarrow> bulk_item \<Rightarrow> bulk_row" where
  "add_one add eventId n attr =
     (case add n eventId (bulk_params attr) of
        Inl err \<Rightarrow>
          \<lparr>br_value = bi_value attr, br_type = bi_type attr, br_id = None,
           br_error = Some (error_message err)\<rparr>
      | Inr None \<Rightarrow>
          \<lparr>br_value = bi_value attr, br_type = bi_type attr, br_id = None,
           br_error = Some (error_message (UndefinedRead ''id''))\<rparr>
      | Inr (Some created) \<Rightarrow>
          \<lparr>br_value = bi_value attr, br_type = bi_type attr, br_id = a_id created,
           br_error = None\<rparr>)"

text \<open>The loop over the items; \<open>n\<close> counts the client calls made before.\<close>

fun add_each ::
  "(nat \<Rightarrow> string \<Rightarrow> add_attribute_params \<Rightarrow> client_error + MispAttribute option)
     \<Rightarrow> string \<Rightarrow> nat \<Rightarrow> bulk_item list \<Rightarrow> bulk_row list \<Rightarrow> bulk_row list" where
  "add_each add eventId n [] results = results"
| "add_each add eventId n (attr # attrs) results =
     add_each add eventId (Suc n) attrs (results @ [add_one add eventId n attr])"

text \<open>
  The handler. Nothing outside the inner \<open>try\<close> can throw, so the outer \<open>catch\<close> is
  never entered and the result is always the report.
\<close>

definition misp_add_attributes_bulk ::
  "(nat \<Rightarrow> string \<Rightarrow> add_attribute_params \<Rightarrow> client_error + MispAttribute option)
     \<Rightarrow> string \<Rightarrow> bulk_item list \<Rightarrow> bulk_report tool_result" where
  "misp_add_attributes_bulk add eventId attributes =
     (let results = add_each add eventId 0 attributes [];
          succeeded = filter (\<lambda>r. truthy (br_id r)) results;
          failed = filter (\<lambda>r. truthy (br_error r)) results
      in ToolJson \<lparr>rep_total = length attributes, rep_succeeded = length succeeded,
                   rep_failed = length failed, rep_results = results\<rparr>)"

section \<open>Notions of the statements, and example inputs\<close>










text \<open>
  A source event with two detection-flagged attributes and one that is not flagged, a
  platform that answers the searches for their values, and one whose searches time out.
\<close>

definition match_in :: "string \<Rightarrow> string \<Rightarrow> string \<Rightarrow> MispAttribute" where
  "match_in eid aid v =
     \<lparr>a_id = Some aid, a_event_id = eid, a_type = ''domain'',
      a_category = ''Network activity'', a_value = v, a_to_ids = True,
      a_Event = None, a_RelatedAttribute = None\<rparr>"

definition event_42 :: MispEvent where
  "event_42 =
     \<lparr>e_id = Some ''42'', e_info = ''Ransomware incident'', e_Tag = None,
      e_Attribute = Some [match_in ''42'' ''100'' ''evil.com'',
                          (match_in ''42'' ''101'' ''benign.net'')\<lparr>a_to_ids := False\<rparr>,
                          match_in ''42'' ''102'' ''bad.org''],
      e_RelatedEvent = Some [\<lparr>re_id = ''50'', re_info = ''Earlier campaign''\<rparr>]\<rparr>"

definition remote_matches :: "nat \<Rightarrow> search_params \<Rightarrow> client_error + MispAttribute list" where
  "remote_matches n p =
     (if sp_value p = Some ''evil.com''
      then Inr [match_in ''43'' ''200'' ''evil.com'', match_in ''43'' ''201'' ''evil.com'',
                match_in ''42'' ''100'' ''evil.com'', match_in ''44'' ''300'' ''evil.com'',
                match_in ''45'' ''400'' ''evil.com'']
      else if sp_value p = Some ''bad.org''
      then Inr [match_in ''43'' ''202'' ''bad.org'', match_in ''45'' ''401'' ''bad.org'',
                match_in ''45'' ''402'' ''bad.org'']
      else Inr [])"

definition timed_out :: "nat \<Rightarrow> search_params \<Rightarrow> client_error + MispAttribute list" where
  "timed_out n p = Inl (Timeout (Number 30000))"

text \<open>
  A platform that refuses the first search of an invocation (the call numbered 1, after
  the fetch of the event) and answers the others.
\<close>

definition first_refused :: "nat \<Rightarrow> search_params \<Rightarrow> client_error + MispAttribute list" where
  "first_refused n p =
     (if n = 1 then Inl (StatusError 403 ''You do not have permission'') else remote_matches n p)"

text \<open>
  \<open>/events/view/\<close> takes the numeric id of an event or its UUID: the platform answers
  both requests with event 42, whose attributes carry \<open>event_id = "42"\<close>.
\<close>

definition uuid_42 :: string where
  "uuid_42 = ''5f2c1a3e-9d4b-4c6a-8e47-2b1d0c9a7f10''"

definition view_event :: "nat \<Rightarrow> string \<Rightarrow> client_error + MispEvent option" where
  "view_event n eventId =
     (if eventId = ''42'' \<or> eventId = uuid_42 then Inr (Some event_42)
      else Inl (StatusError 404 ''Invalid event''))"

text \<open>
  The candidate map the loop builds for event 42 from these answers, in insertion order.
\<close>

definition discovered_42 :: "related_entry js_map" where
  "discovered_42 =
     [(''50'', \<lparr>rl_event_id = ''50'', rl_event_info = ''Earlier campaign'',
               overlapping_iocs = [], correlation_count = 0\<rparr>),
      (''43'', \<lparr>rl_event_id = ''43'', rl_event_info = ''Unknown'',
               overlapping_iocs = [''evil.com'', ''bad.org''], correlation_count = 3\<rparr>),
      (''44'', \<lparr>rl_event_id = ''44'', rl_event_info = ''Unknown'',
               overlapping_iocs = [''evil.com''], correlation_count = 1\<rparr>),
      (''45'', \<lparr>rl_event_id = ''45'', rl_event_info = ''Unknown'',
               overlapping_iocs = [''evil.com'', ''bad.org''], correlation_count = 3\<rparr>)]"

text \<open>
  What one item's \<open>try\<close> block does with the answer of \<open>client.addAttribute\<close>: it
  throws when the call throws and when the call returns \<open>undefined\<close> (reading
  \<open>created.id\<close> raises); otherwise it completes with \<open>created.id\<close>.
\<close>

definition throws :: "client_error + MispAttribute option \<Rightarrow> bool" where
  "throws r = (case r of Inl _ \<Rightarrow> True | Inr None \<Rightarrow> True | Inr (Some _) \<Rightarrow> False)"

definition created_id :: "client_error + MispAttribute option \<Rightarrow> string option" where
  "created_id r = (case r of Inr (Some created) \<Rightarrow> a_id created | _ \<Rightarrow> None)"

text \<open>
  The answers of the unit operations of a batch, in input order; unit \<open>i\<close> is the
  \<open>i\<close>-th client call of the invocation.
\<close>

definition units ::
  "(nat \<Rightarrow> string \<Rightarrow> add_attribute_params \<Rightarrow> client_error + MispAttribute option)
     \<Rightarrow> string \<Rightarrow> bulk_item list \<Rightarrow> (client_error + MispAttribute option) list" where
  "units add eventId attributes =
     map (\<lambda>(i, attr). add i eventId (bulk_params attr)) (enumerate 0 attributes)"

text \<open>
  Batches of \<open>ip-src\<close> items and three platforms: one that rejects the second item, one
  that creates attributes without reporting an id, and one that answers each of the first
  four calls differently.
\<close>

definition ip_item :: "string \<Rightarrow> bulk_item" where
  "ip_item v =
     \<lparr>bi_type = ''ip-src'', bi_value = v, bi_category = None, bi_toIds = None,
      bi_comment = None\<rparr>"

definition created_as :: "string option \<Rightarrow> MispAttribute" where
  "created_as i =
     \<lparr>a_id = i, a_event_id = ''42'', a_type = ''ip-src'',
      a_category = ''Network activity'', a_value = ''10.0.0.1'', a_to_ids = True,
      a_Event = None, a_RelatedAttribute = None\<rparr>"

definition second_is_duplicate ::
  "nat \<Rightarrow> string \<Rightarrow> add_attribute_params \<Rightarrow> client_error + MispAttribute option" where
  "second_is_duplicate n eventId params =
     (if n = 1 then Inl (StatusError 403 ''Duplicate value'')
      else Inr (Some (created_as (Some ''301''))))"

definition answers_without_id ::
  "nat \<Rightarrow> string \<Rightarrow> add_attribute_params \<Rightarrow> client_error + MispAttribute option" where
  "answers_without_id n eventId params = Inr (Some (created_as None))"

definition mixed_answers ::
  "nat \<Rightarrow> string \<Rightarrow> add_attribute_params \<Rightarrow> client_error + MispAttribute option" where
  "mixed_answers n eventId params =
     (if n = 0 then Inr (Some (created_as (Some ''301'')))
      else if n = 1 then Inl (StatusError 403 ''Duplicate value'')
      else if n = 2 then Inr (Some (created_as None))
      else Inr None)"

text \<open>
  The three ways a unit can end without a truthy id: \<open>client.addAttribute\<close> throws; it
  returns \<open>undefined\<close>, the answer of the platform carrying no \<open>Attribute\<close>; it returns
  an attribute whose \<open>id\<close> is absent or empty.
\<close>

definition call_throws :: "client_error + MispAttribute option \<Rightarrow> bool" where
  "call_throws r = (case r of Inl _ \<Rightarrow> True | Inr _ \<Rightarrow> False)"

definition returns_undefined :: "client_error + MispAttribute option \<Rightarrow> bool" where
  "returns_undefined r = (case r of Inr None \<Rightarrow> True | _ \<Rightarrow> False)"

definition returns_without_id :: "client_error + MispAttribute option \<Rightarrow> bool" where
  "returns_without_id r =
     (case r of Inr (Some created) \<Rightarrow> \<not> truthy (a_id created) | _ \<Rightarrow> False)"

text \<open>\<open>client.addAttribute\<close> of a client in the world \<open>w\<close>, as the bulk tool calls it.\<close>

definition client_add ::
  "world \<Rightarrow> MispConfig \<Rightarrow> nat \<Rightarrow> string \<Rightarrow> add_attribute_params
     \<Rightarrow> client_error + MispAttribute option" where
  "client_add w cfg n eventId params = fst (addAttribute w cfg n eventId params)"

text \<open>
  A platform for the examples: every request settles after \<open>ms\<close> milliseconds in the
  same way, and the body is read in \<open>ms_body\<close> more. Its \<open>JSON.parse\<close> knows two
  texts, \<open>{}\<close>, the object without members, and \<open>null\<close>, and throws on every other.
\<close>

definition empty_object :: parsed_body where
  "empty_object =
     \<lparr>pb_response = None, pb_Event = None, pb_Attribute = None, pb_message = None,
      pb_errors = None\<rparr>"

definition parse_braces :: "string \<Rightarrow> parsed option" where
  "parse_braces text =
     (if text = ''{}'' then Some (JsonValue empty_object)
      else if text = ''null'' then Some JsonNull
      else None)"

definition answering_slowly :: "nat \<Rightarrow> fetch_outcome \<Rightarrow> nat \<Rightarrow> world" where
  "answering_slowly ms outcome ms_body =
     \<lparr>JSON_parse = parse_braces,
      network = (\<lambda>n call. \<lparr>latency = ms, settles = outcome, body_latency = ms_body\<rparr>)\<rparr>"

definition answering :: "nat \<Rightarrow> fetch_outcome \<Rightarrow> world" where
  "answering ms outcome = answering_slowly ms outcome 3"

text \<open>
  The configuration of the test suite, with the default timeout of 30 seconds.
\<close>

definition misp_config :: MispConfig where
  "misp_config =
     \<lparr>cfg_url = ''https://misp.example.com'', cfg_apiKey = ''test-api-key-12345'',
      cfg_verifySsl = True, cfg_timeout = Number 30000\<rparr>"

definition no_event_filters :: event_search_params where
  "no_event_filters =
     \<lparr>es_value = None, es_type = None, es_category = None, es_tags = None, es_eventid = None,
      es_org = None, es_dateFrom = None, es_dateTo = None, es_last = None,
      es_published = None, es_limit = None, es_page = None\<rparr>"

definition no_attribute_filters :: search_params where
  "no_attribute_filters =
     \<lparr>sp_value = Some ''10.0.0.1'', sp_type = None, sp_category = None, sp_tags = None,
      sp_to_ids = None, sp_includeCorrelations = None, sp_last = None, sp_limit = None\<rparr>"

text \<open>
  A platform that answers the requests of an invocation from a list, one after the
  other, as the mocked \<open>fetch\<close> of the test suite does.
\<close>

definition replaying :: "(string \<Rightarrow> parsed option) \<Rightarrow> fetch_outcome list \<Rightarrow> world" where
  "replaying parse outcomes =
     \<lparr>JSON_parse = parse,
      network = (\<lambda>n call.
        \<lparr>latency = 12,
         settles = (if n < length outcomes then outcomes ! n
                    else Rejected (OtherValue ''no answer'')),
         body_latency = 3\<rparr>)\<rparr>"

text \<open>
  The event and the attribute the examples create, the body texts that carry them, and
  a \<open>JSON.parse\<close> that knows these texts.
\<close>

definition event_99 :: "string list option \<Rightarrow> MispEvent" where
  "event_99 tags =
     \<lparr>e_id = Some ''99'', e_info = ''New incident report'', e_Tag = tags,
      e_Attribute = None, e_RelatedEvent = None\<rparr>"

definition attr_300 :: MispAttribute where
  "attr_300 =
     \<lparr>a_id = Some ''300'', a_event_id = ''42'', a_type = ''domain'',
      a_category = ''Network activity'', a_value = ''evil.com'', a_to_ids = True,
      a_Event = None, a_RelatedAttribute = None\<rparr>"

definition created_text :: string where
  "created_text = ''{'' @ quoted ''Event'' @ '':{'' @ quoted ''id'' @ '':'' @ quoted ''99'' @ ''}}''"

definition tagged_text :: string where
  "tagged_text =
     ''{'' @ quoted ''Event'' @ '':{'' @ quoted ''id'' @ '':'' @ quoted ''99'' @ '','' @ quoted ''Tag''
     @ '':[{'' @ quoted ''name'' @ '':'' @ quoted ''tlp:white'' @ ''},{'' @ quoted ''name'' @ '':''
     @ quoted ''tlp:green'' @ ''}]}}''"

definition attribute_text :: string where
  "attribute_text =
     ''{'' @ quoted ''Attribute'' @ '':{'' @ quoted ''id'' @ '':'' @ quoted ''300'' @ ''}}''"

definition parse_created :: "string \<Rightarrow> parsed option" where
  "parse_created text =
     (if text = created_text
      then Some (JsonValue (empty_object\<lparr>pb_Event := Some (event_99 None)\<rparr>))
      else if text = tagged_text
      then Some (JsonValue (empty_object
             \<lparr>pb_Event := Some (event_99 (Some [''tlp:white'', ''tlp:green'']))\<rparr>))
      else if text = attribute_text
      then Some (JsonValue (empty_object\<lparr>pb_Attribute := Some attr_300\<rparr>))
      else if text = ''{}'' then Some (JsonValue empty_object)
      else None)"

definition new_incident :: "string list option \<Rightarrow> create_event_params" where
  "new_incident tags =
     \<lparr>ce_info = ''New incident report'', ce_distribution = 0, ce_threat_level_id = 2,
      ce_analysis = 0, ce_date = None, ce_tags = tags, ce_published = None\<rparr>"

definition evil_domain :: "string list option \<Rightarrow> add_attribute_params" where
  "evil_domain tags =
     \<lparr>ap_type = ''domain'', ap_value = ''evil.com'', ap_category = None, ap_to_ids = None,
      ap_comment = None, ap_distribution = None, ap_tags = tags\<rparr>"

text \<open>
  The \<open>limit\<close> member of the body an attribute search sends.
\<close>

definition sent_limit :: "search_params \<Rightarrow> nat" where
  "sent_limit p =
     (case json_member (searchAttributes_body p) ''limit'' of
        Some (JNum l) \<Rightarrow> nat l
      | _ \<Rightarrow> 0)"

text \<open>
  A platform that holds sixty matching attributes and, asked with \<open>limit = 50\<close>,
  answers with the first fifty (the examples ask with no other limit).
\<close>

definition sixty_matches :: "string \<Rightarrow> MispAttribute list" where
  "sixty_matches v = replicate 60 (match_in ''43'' ''200'' ''evil.com'')"

definition capped_text :: string where
  "capped_text = ''{'' @ quoted ''response'' @ '':{'' @ quoted ''Attribute'' @ '':[...]}}''"

definition parse_capped :: "string \<Rightarrow> parsed option" where
  "parse_capped text =
     (if text = capped_text
      then Some (JsonValue (empty_object
             \<lparr>pb_response :=
                Some (ResponseObject (Some (replicate 50 (match_in ''43'' ''200'' ''evil.com''))))\<rparr>))
      else None)"

definition capping :: world where
  "capping =
     \<lparr>JSON_parse = parse_capped,
      network = (\<lambda>n call.
        \<lparr>latency = 12,
         settles =
           (case ac_body call of
              None \<Rightarrow> Responded 405 []
            | Some body \<Rightarrow>
                if json_member body ''limit'' = Some (JNum 50) then Responded 200 capped_text
                else Responded 500 []),
         body_latency = 3\<rparr>)\<rparr>"

section \<open>Verified properties\<close>

subsection \<open>The \<open>Map\<close> operations\<close>




subsection \<open>Value correlation\<close>








subsection \<open>Event-relation discovery\<close>















lemma search_values_calls:
  "search_values search eventId n vs m calls = (res, calls') \<Longrightarrow>
     length calls \<le> length calls' \<and> length calls' \<le> length calls + length vs \<and>
     calls' = calls @ map correlation_search (take (length calls' - length calls) vs) \<and>
     ((\<exists>m'. res = Inr m') \<longrightarrow> calls' = calls @ map correlation_search vs)"
proof (induction vs arbitrary: n m calls)
  case Nil
  then show ?case by auto
next
  case (Cons v vs)
  show ?case
  proof (cases "search n (correlation_search v)")
    case (Inl err)
    with Cons.prems show ?thesis by auto
  next
    case (Inr ms)
    with Cons.prems have
      "search_values search eventId (Suc n) vs (foldl (record_match eventId v) m ms)
         (calls @ [correlation_search v]) = (res, calls')"
      by simp
    from Cons.IH [OF this] show ?thesis
      by (auto simp: Suc_diff_le take_Cons')
  qed
qed

lemma insert_by_key:
  assumes "\<And>a b. cmp a b \<le> 0 \<longleftrightarrow> key a \<le> key b"
  shows "insert_by cmp x xs = insort_key key x xs"
  by (induction xs) (simp_all add: assms)

lemma js_sort_key:
  assumes "\<And>a b. cmp a b \<le> 0 \<longleftrightarrow> key a \<le> key b"
  shows "js_sort cmp xs = sort_key key xs"
  by (induction xs) (simp_all add: js_sort_def sort_key_def insert_by_key [OF assms])

lemma js_sort_by_count:
  "js_sort by_count_desc xs = sort_key (\<lambda>e. - int (correlation_count e)) xs"
  by (rule js_sort_key) (simp add: by_count_desc_def)

lemma sorted_by_count:
  "sorted_wrt (\<lambda>a b. correlation_count b \<le> correlation_count a) (js_sort by_count_desc xs)"
proof -
  have "sorted (map (\<lambda>e. - int (correlation_count e)) (js_sort by_count_desc xs))"
    by (simp add: js_sort_by_count)
  then show ?thesis by (simp add: sorted_map)
qed

lemma stable_by_count:
  "filter (\<lambda>e. correlation_count e = c) (js_sort by_count_desc xs) =
   filter (\<lambda>e. correlation_count e = c) xs"
proof -
  have "filter (\<lambda>e. - int (correlation_count e) = - int c) (js_sort by_count_desc xs) =
        filter (\<lambda>e. - int (correlation_count e) = - int c) xs"
    unfolding js_sort_by_count by (rule sort_key_stable)
  then show ?thesis by simp
qed

lemma length_js_sort_by_count: "length (js_sort by_count_desc xs) = length xs"
  by (simp add: js_sort_by_count)



lemma example_discovery:
  "search_values remote_matches ''42'' 1 [''evil.com'', ''bad.org''] (seed_related event_42) []
     = (Inr discovered_42, [correlation_search ''evil.com'', correlation_search ''bad.org''])"
  by (simp add: remote_matches_def correlation_search_def seed_related_def seed_entry_def
        event_42_def record_match_def note_match_def match_in_def event_info_of_def
        map_has_def discovered_42_def Let_def)
















lemma search_values_all_ok:
  "(\<And>i. i < length vs \<Longrightarrow> \<exists>ms. search (n + i) (correlation_search (vs ! i)) = Inr ms) \<Longrightarrow>
   \<exists>m'. search_values search eventId n vs m calls = (Inr m', calls @ map correlation_search vs)"
proof (induction vs arbitrary: n m calls)
  case Nil
  show ?case by simp
next
  case (Cons v vs)
  from Cons.prems [of 0] obtain ms where ms: "search n (correlation_search v) = Inr ms"
    by auto
  have "\<exists>ms. search (Suc n + i) (correlation_search (vs ! i)) = Inr ms" if "i < length vs" for i
    using Cons.prems [of "Suc i"] that by simp
  from Cons.IH [of "Suc n" "foldl (record_match eventId v) m ms" "calls @ [correlation_search v]",
                OF this] ms
  show ?case by simp
qed

lemma search_values_first_failure:
  "j < length vs \<Longrightarrow>
   (\<And>i. i < j \<Longrightarrow> \<exists>ms. search (n + i) (correlation_search (vs ! i)) = Inr ms) \<Longrightarrow>
   search (n + j) (correlation_search (vs ! j)) = Inl err \<Longrightarrow>
   search_values search eventId n vs m calls
     = (Inl err, calls @ map correlation_search (take (Suc j) vs))"
proof (induction vs arbitrary: n m calls j)
  case Nil
  then show ?case by simp
next
  case (Cons v vs)
  show ?case
  proof (cases j)
    case 0
    with Cons.prems(3) show ?thesis by simp
  next
    case (Suc j')
    from Cons.prems(2) [of 0] Suc obtain ms where ms: "search n (correlation_search v) = Inr ms"
      by auto
    have len: "j' < length vs"
      using Cons.prems(1) Suc by simp
    have before: "\<exists>ms. search (Suc n + i) (correlation_search (vs ! i)) = Inr ms" if "i < j'" for i
      using Cons.prems(2) [of "Suc i"] that Suc by simp
    have at: "search (Suc n + j') (correlation_search (vs ! j')) = Inl err"
      using Cons.prems(3) Suc by simp
    from Cons.IH [of j' "Suc n" "foldl (record_match eventId v) m ms"
                    "calls @ [correlation_search v]", OF len before at] ms Suc
    show ?thesis by simp
  qed
qed






text \<open>
  C3, amended. The handler issues at most 20 searches. Once the event is fetched, the
  searches issued are, in order, those for a prefix of the values of the first (at most)
  20 detection-flagged attributes, one search per value. When the search of each of
  these values succeeds, they are the searches for all of them. When the search of the
  value at position \<open>j\<close> is the first that fails, the handler ends with that failure:
  the searches issued are those for the values up to position \<open>j\<close>, and no later value
  is searched.
\<close>

theorem related_search_fanout:
  "length (snd (misp_get_related_events get search eventId)) \<le> 20 \<and>
   (get 0 eventId = Inr (Some event) \<longrightarrow>
      (let calls = snd (misp_get_related_events get search eventId);
           selected = map a_value (take 20 (filter a_to_ids
                        (case e_Attribute event of None \<Rightarrow> [] | Some as \<Rightarrow> as)))
       in calls = map correlation_search (take (length calls) selected) \<and>
          ((\<forall>i < length selected. \<exists>ms. search (Suc i) (correlation_search (selected ! i)) = Inr ms)
             \<longrightarrow> calls = map correlation_search selected) \<and>
          (\<forall>j err. j < length selected \<and>
                   (\<forall>i < j. \<exists>ms. search (Suc i) (correlation_search (selected ! i)) = Inr ms) \<and>
                   search (Suc j) (correlation_search (selected ! j)) = Inl err
             \<longrightarrow> misp_get_related_events get search eventId =
                   (ToolError (''Error finding related events: '' @ error_message err),
                    map correlation_search (take (Suc j) selected)))))"
proof -
  have cap: "length (valuesToSearch attrs) \<le> 20" for attrs
    by (simp add: valuesToSearch_def)
  have loop: "length (snd (search_values search eventId 1 (valuesToSearch attrs) m [])) \<le> 20"
    for attrs m
    using search_values_calls
            [of search eventId 1 "valuesToSearch attrs" m "[]"
                "fst (search_values search eventId 1 (valuesToSearch attrs) m [])"
                "snd (search_values search eventId 1 (valuesToSearch attrs) m [])"]
          cap [of attrs]
    by simp
  have bound: "length (snd (misp_get_related_events get search eventId)) \<le> 20"
    using loop
    by (auto simp: misp_get_related_events_def Let_def split: sum.splits option.splits prod.splits)
       (metis snd_conv)+
  have rest: "(let calls = snd (misp_get_related_events get search eventId);
           selected = map a_value (take 20 (filter a_to_ids
                        (case e_Attribute event of None \<Rightarrow> [] | Some as \<Rightarrow> as)))
       in calls = map correlation_search (take (length calls) selected) \<and>
          ((\<forall>i < length selected. \<exists>ms. search (Suc i) (correlation_search (selected ! i)) = Inr ms)
             \<longrightarrow> calls = map correlation_search selected) \<and>
          (\<forall>j err. j < length selected \<and>
                   (\<forall>i < j. \<exists>ms. search (Suc i) (correlation_search (selected ! i)) = Inr ms) \<and>
                   search (Suc j) (correlation_search (selected ! j)) = Inl err
             \<longrightarrow> misp_get_related_events get search eventId =
                   (ToolError (''Error finding related events: '' @ error_message err),
                    map correlation_search (take (Suc j) selected))))"
    if got: "get 0 eventId = Inr (Some event)"
  proof -
    define attrs where "attrs = (case e_Attribute event of None \<Rightarrow> [] | Some as \<Rightarrow> as)"
    define selected where "selected = valuesToSearch attrs"
    define run where
      "run = search_values search eventId (Suc 0) selected (seed_related event) []"
    have none: "selected = []" if "attrs = []"
      using that by (simp add: selected_def valuesToSearch_def)
    have out: "misp_get_related_events get search eventId =
        (if attrs = []
         then (ToolText (''Event '' @ eventId @ '' has no attributes to correlate.''), [])
         else (case run of
                 (Inl err, calls) \<Rightarrow>
                   (ToolError (''Error finding related events: '' @ error_message err), calls)
               | (Inr relatedMap, calls) \<Rightarrow>
                   (let related = js_sort by_count_desc (map_values relatedMap) in
                    (ToolJson \<lparr>rr_event_id = eventId, rr_event_info = e_info event,
                               related_events = related, total_related = length related\<rparr>,
                     calls))))"
      using got by (simp add: misp_get_related_events_def attrs_def selected_def run_def Let_def)
    have calls: "snd (misp_get_related_events get search eventId) = snd run"
    proof (cases "attrs = []")
      case True
      with none show ?thesis by (simp add: out run_def)
    next
      case False
      then show ?thesis
        by (simp add: out Let_def split: sum.splits prod.splits)
    qed
    have eq: "run = (fst run, snd run)" by simp
    note c = search_values_calls [OF eq [unfolded run_def], folded run_def]
    have prefix: "snd run = map correlation_search (take (length (snd run)) selected)"
      using c by simp
    have all: "snd run = map correlation_search selected"
      if "\<forall>i < length selected. \<exists>ms. search (Suc i) (correlation_search (selected ! i)) = Inr ms"
    proof -
      from that have
        "\<exists>ms. search (Suc 0 + i) (correlation_search (selected ! i)) = Inr ms"
        if "i < length selected" for i
        using that by simp
      from search_values_all_ok [of selected search "Suc 0" eventId "seed_related event" "[]", OF this]
      show ?thesis by (auto simp: run_def)
    qed
    have stop: "misp_get_related_events get search eventId =
                   (ToolError (''Error finding related events: '' @ error_message err),
                    map correlation_search (take (Suc j) selected))"
      if j: "j < length selected"
        and before: "\<forall>i < j. \<exists>ms. search (Suc i) (correlation_search (selected ! i)) = Inr ms"
        and at: "search (Suc j) (correlation_search (selected ! j)) = Inl err"
      for j err
    proof -
      from before have b:
        "\<exists>ms. search (Suc 0 + i) (correlation_search (selected ! i)) = Inr ms" if "i < j" for i
        using that by simp
      from at have a: "search (Suc 0 + j) (correlation_search (selected ! j)) = Inl err"
        by simp
      from search_values_first_failure
             [of j selected search "Suc 0" err eventId "seed_related event" "[]", OF j b a]
      have r: "run = (Inl err, map correlation_search (take (Suc j) selected))"
        by (simp add: run_def)
      from j none have "attrs \<noteq> []" by auto
      with r show ?thesis by (simp add: out)
    qed
    from prefix all stop show ?thesis
      unfolding Let_def calls attrs_def [symmetric] valuesToSearch_def [symmetric]
        selected_def [symmetric]
      by blast
  qed
  from bound rest show ?thesis by blast
qed

theorem related_search_fanout_witness:
  "length (snd (misp_get_related_events view_event remote_matches ''42'')) \<le> 20 \<and>
   view_event 0 ''42'' = Inr (Some event_42) \<and>
   map a_value (take 20 (filter a_to_ids
      (case e_Attribute event_42 of None \<Rightarrow> [] | Some as \<Rightarrow> as)))
     = [''evil.com'', ''bad.org''] \<and>
   snd (misp_get_related_events view_event remote_matches ''42'')
     = [correlation_search ''evil.com'', correlation_search ''bad.org''] \<and>
   first_refused 1 (correlation_search ''evil.com'')
     = Inl (StatusError 403 ''You do not have permission'') \<and>
   misp_get_related_events view_event first_refused ''42''
     = (ToolError (''Error finding related events: '' @
                   error_message (StatusError 403 ''You do not have permission'')),
        [correlation_search ''evil.com''])"
proof -
  have got: "view_event 0 ''42'' = Inr (Some event_42)"
    by (simp add: view_event_def)
  have sel: "map a_value (take 20 (filter a_to_ids
      (case e_Attribute event_42 of None \<Rightarrow> [] | Some as \<Rightarrow> as)))
     = [''evil.com'', ''bad.org'']"
    by (simp add: event_42_def match_in_def)
  have ok: "\<forall>i < length [''evil.com'', ''bad.org''].
      \<exists>ms. remote_matches (Suc i) (correlation_search ([''evil.com'', ''bad.org''] ! i)) = Inr ms"
    by (simp add: remote_matches_def)
  have refused: "first_refused 1 (correlation_search ''evil.com'')
     = Inl (StatusError 403 ''You do not have permission'')"
    by (simp add: first_refused_def)
  note t = related_search_fanout
             [where get = view_event and search = remote_matches and eventId = "''42''"
                and event = event_42]
  from t have cap: "length (snd (misp_get_related_events view_event remote_matches ''42'')) \<le> 20"
    by blast
  from t got ok have all: "snd (misp_get_related_events view_event remote_matches ''42'')
     = [correlation_search ''evil.com'', correlation_search ''bad.org'']"
    unfolding Let_def sel by simp
  from related_search_fanout
         [where get = view_event and search = first_refused and eventId = "''42''"
            and event = event_42]
       got
  have "\<forall>j err. j < length [''evil.com'', ''bad.org''] \<and>
                   (\<forall>i < j. \<exists>ms. first_refused (Suc i)
                       (correlation_search ([''evil.com'', ''bad.org''] ! i)) = Inr ms) \<and>
                   first_refused (Suc j) (correlation_search ([''evil.com'', ''bad.org''] ! j))
                     = Inl err
             \<longrightarrow> misp_get_related_events view_event first_refused ''42'' =
                   (ToolError (''Error finding related events: '' @ error_message err),
                    map correlation_search (take (Suc j) [''evil.com'', ''bad.org'']))"
    unfolding Let_def sel by blast
  from this [rule_format, of 0 "StatusError 403 ''You do not have permission''"] refused
  have stop: "misp_get_related_events view_event first_refused ''42''
     = (ToolError (''Error finding related events: '' @
                   error_message (StatusError 403 ''You do not have permission'')),
        [correlation_search ''evil.com''])"
    by simp
  from cap got sel all refused stop show ?thesis
    by (intro conjI)
qed

text \<open>
  C3 as stated has every selected value searched. Here two values are selected and
  the first search times out: the handler stops, and the second value is never searched.
\<close>

theorem related_search_abandoned:
  "snd (misp_get_related_events view_event timed_out ''42'')
     = [correlation_search ''evil.com''] \<and>
   valuesToSearch (case e_Attribute event_42 of None \<Rightarrow> [] | Some as \<Rightarrow> as)
     = [''evil.com'', ''bad.org''] \<and>
   fst (misp_get_related_events view_event timed_out ''42'')
     = ToolError (''Error finding related events: '' @ error_message (Timeout (Number 30000)))"
  by (simp add: misp_get_related_events_def valuesToSearch_def event_42_def match_in_def
        timed_out_def view_event_def Let_def)

text \<open>
  C4. When every search has answered, the handler returns the candidates of the map
  sorted by descending \<open>correlation_count\<close>, and the candidates of any one count stand in
  the order in which the map holds them, which is the order of their first insertion.
\<close>

theorem related_ranking_stable:
  assumes "get 0 eventId = Inr (Some event)"
    and "e_Attribute event = Some attrs" and "attrs \<noteq> []"
    and "search_values search eventId 1 (valuesToSearch attrs) (seed_related event) []
           = (Inr relatedMap, calls)"
  shows
    "fst (misp_get_related_events get search eventId) =
       ToolJson \<lparr>rr_event_id = eventId, rr_event_info = e_info event,
                 related_events = js_sort by_count_desc (map_values relatedMap),
                 total_related = length (map_values relatedMap)\<rparr> \<and>
     sorted_wrt (\<lambda>a b. correlation_count b \<le> correlation_count a)
       (js_sort by_count_desc (map_values relatedMap)) \<and>
     (\<forall>c. filter (\<lambda>e. correlation_count e = c) (js_sort by_count_desc (map_values relatedMap))
          = filter (\<lambda>e. correlation_count e = c) (map_values relatedMap))"
proof (intro conjI allI)
  show "fst (misp_get_related_events get search eventId) =
       ToolJson \<lparr>rr_event_id = eventId, rr_event_info = e_info event,
                 related_events = js_sort by_count_desc (map_values relatedMap),
                 total_related = length (map_values relatedMap)\<rparr>"
    using assms
    by (simp add: misp_get_related_events_def Let_def length_js_sort_by_count)
  show "sorted_wrt (\<lambda>a b. correlation_count b \<le> correlation_count a)
       (js_sort by_count_desc (map_values relatedMap))"
    by (rule sorted_by_count)
  show "filter (\<lambda>e. correlation_count e = c) (js_sort by_count_desc (map_values relatedMap))
          = filter (\<lambda>e. correlation_count e = c) (map_values relatedMap)" for c
    by (rule stable_by_count)
qed

theorem related_ranking_stable_witness:
  "map correlation_count (map_values discovered_42) = [0, 3, 1, 3] \<and>
   map rl_event_id (map_values discovered_42) = [''50'', ''43'', ''44'', ''45''] \<and>
   map rl_event_id (js_sort by_count_desc (map_values discovered_42))
     = [''43'', ''45'', ''44'', ''50''] \<and>
   map correlation_count (js_sort by_count_desc (map_values discovered_42)) = [3, 3, 1, 0] \<and>
   fst (misp_get_related_events (\<lambda>n e. Inr (Some event_42)) remote_matches ''42'') =
       ToolJson \<lparr>rr_event_id = ''42'', rr_event_info = e_info event_42,
                 related_events = js_sort by_count_desc (map_values discovered_42),
                 total_related = 4\<rparr>"
  using related_ranking_stable
          [of "\<lambda>n e. Inr (Some event_42)" "''42''" event_42
              "[match_in ''42'' ''100'' ''evil.com'',
                (match_in ''42'' ''101'' ''benign.net'')\<lparr>a_to_ids := False\<rparr>,
                match_in ''42'' ''102'' ''bad.org'']"
              remote_matches discovered_42
              "[correlation_search ''evil.com'', correlation_search ''bad.org'']"]
        example_discovery
  by (simp add: valuesToSearch_def match_in_def event_42_def)
     (simp add: discovered_42_def map_values_def js_sort_def by_count_desc_def)

subsection \<open>The bulk executor\<close>

lemma error_message_nonempty: "error_message err \<noteq> []"
  by (cases err) (simp_all add: status_prefix_def split: option.split)

lemma add_each_rows:
  "add_each add eventId n attrs results =
     results @ map (\<lambda>(i, attr). add_one add eventId i attr) (enumerate n attrs)"
  by (induction attrs arbitrary: n results) simp_all

lemma row_failed: "truthy (br_error (add_one add eventId i attr)) \<longleftrightarrow> throws (add i eventId (bulk_params attr))"
  by (simp add: add_one_def throws_def truthy_def error_message_nonempty
        split: sum.split option.split)

lemma row_succeeded:
  "truthy (br_id (add_one add eventId i attr)) \<longleftrightarrow> truthy (created_id (add i eventId (bulk_params attr)))"
  by (simp add: add_one_def created_id_def truthy_def split: sum.split option.split)

lemma row_item:
  "br_value (add_one add eventId i attr) = bi_value attr \<and>
   br_type (add_one add eventId i attr) = bi_type attr"
  by (simp add: add_one_def split: sum.split option.split)

lemma length_filter_rows:
  "length (filter P (map (\<lambda>(i, attr). add_one add eventId i attr) us)) =
   length (filter (\<lambda>(i, attr). P (add_one add eventId i attr)) us)"
  by (induction us) auto

lemma bulk_report:
  "misp_add_attributes_bulk add eventId attrs =
     ToolJson
       \<lparr>rep_total = length attrs,
        rep_succeeded = length (filter (\<lambda>r. truthy (created_id r)) (units add eventId attrs)),
        rep_failed = length (filter throws (units add eventId attrs)),
        rep_results = map (\<lambda>(i, attr). add_one add eventId i attr) (enumerate 0 attrs)\<rparr>"
proof -
  have f: "length (filter (\<lambda>r. truthy (br_error r))
              (map (\<lambda>(i, attr). add_one add eventId i attr) us)) =
           length (filter throws (map (\<lambda>(i, attr). add i eventId (bulk_params attr)) us))" for us
    by (induction us) (auto simp: row_failed)
  have s: "length (filter (\<lambda>r. truthy (br_id r))
              (map (\<lambda>(i, attr). add_one add eventId i attr) us)) =
           length (filter (\<lambda>r. truthy (created_id r))
              (map (\<lambda>(i, attr). add i eventId (bulk_params attr)) us))" for us
    by (induction us) (auto simp: row_succeeded)
  have rows: "add_each add eventId 0 attrs [] =
      map (\<lambda>(i, attr). add_one add eventId i attr) (enumerate 0 attrs)"
    by (simp add: add_each_rows)
  show ?thesis
    unfolding misp_add_attributes_bulk_def Let_def rows units_def f s by (rule refl)
qed

lemma throws_not_created: "throws r \<Longrightarrow> \<not> truthy (created_id r)"
  by (auto simp: throws_def created_id_def truthy_def split: sum.splits option.splits)

lemma tallies:
  "length (filter (\<lambda>r. truthy (created_id r)) us) + length (filter throws us)
     + length (filter (\<lambda>r. \<not> throws r \<and> \<not> truthy (created_id r)) us) = length us"
  by (induction us) (auto dest: throws_not_created)

lemma rows_in_order:
  "map (\<lambda>r. (br_value r, br_type r))
     (map (\<lambda>(i, attr). add_one add eventId i attr) (enumerate n attrs)) =
   map (\<lambda>attr. (bi_value attr, bi_type attr)) attrs"
  by (induction attrs arbitrary: n) (simp_all add: row_item)

text \<open>
  C5, amended. Of the \<open>N\<close> units of a batch, \<open>k\<close> throw. Every unit is run, in input
  order, whatever the units before it did: the report has \<open>total = N\<close>, \<open>failed = k\<close>,
  one row per item in input order, and \<open>succeeded\<close> is the number of units that returned
  a non-empty id. When every unit that does not throw returns a non-empty id,
  \<open>succeeded = N - k\<close>.
\<close>

theorem bulk_report_counts:
  assumes "length (filter throws (units add eventId attrs)) = k"
  shows
    "misp_add_attributes_bulk add eventId attrs =
       ToolJson
         \<lparr>rep_total = length attrs,
          rep_succeeded = length (filter (\<lambda>r. truthy (created_id r)) (units add eventId attrs)),
          rep_failed = k,
          rep_results = map (\<lambda>(i, attr). add_one add eventId i attr) (enumerate 0 attrs)\<rparr> \<and>
     length (units add eventId attrs) = length attrs \<and>
     map (\<lambda>r. (br_value r, br_type r))
       (map (\<lambda>(i, attr). add_one add eventId i attr) (enumerate 0 attrs)) =
     map (\<lambda>attr. (bi_value attr, bi_type attr)) attrs \<and>
     ((\<forall>r \<in> set (units add eventId attrs). \<not> throws r \<longrightarrow> truthy (created_id r)) \<longrightarrow>
        length (filter (\<lambda>r. truthy (created_id r)) (units add eventId attrs)) = length attrs - k)"
proof (intro conjI impI)
  show "misp_add_attributes_bulk add eventId attrs =
       ToolJson
         \<lparr>rep_total = length attrs,
          rep_succeeded = length (filter (\<lambda>r. truthy (created_id r)) (units add eventId attrs)),
          rep_failed = k,
          rep_results = map (\<lambda>(i, attr). add_one add eventId i attr) (enumerate 0 attrs)\<rparr>"
    unfolding bulk_report assms by (rule refl)
  show len: "length (units add eventId attrs) = length attrs"
    by (simp add: units_def)
  show "map (\<lambda>r. (br_value r, br_type r))
       (map (\<lambda>(i, attr). add_one add eventId i attr) (enumerate 0 attrs)) =
     map (\<lambda>attr. (bi_value attr, bi_type attr)) attrs"
    by (rule rows_in_order)
  assume "\<forall>r \<in> set (units add eventId attrs). \<not> throws r \<longrightarrow> truthy (created_id r)"
  then have "filter (\<lambda>r. \<not> throws r \<and> \<not> truthy (created_id r)) (units add eventId attrs) = []"
    by (auto simp: filter_empty_conv)
  with tallies [of "units add eventId attrs"] assms len
  show "length (filter (\<lambda>r. truthy (created_id r)) (units add eventId attrs)) = length attrs - k"
    by simp
qed

theorem bulk_report_counts_witness:
  "length (filter throws (units second_is_duplicate ''42''
      [ip_item ''10.0.0.1'', ip_item ''10.0.0.2'', ip_item ''10.0.0.3''])) = 1 \<and>
   misp_add_attributes_bulk second_is_duplicate ''42''
      [ip_item ''10.0.0.1'', ip_item ''10.0.0.2'', ip_item ''10.0.0.3''] =
     ToolJson
       \<lparr>rep_total = 3, rep_succeeded = 2, rep_failed = 1,
        rep_results =
          [\<lparr>br_value = ''10.0.0.1'', br_type = ''ip-src'', br_id = Some ''301'', br_error = None\<rparr>,
           \<lparr>br_value = ''10.0.0.2'', br_type = ''ip-src'', br_id = None,
            br_error = Some ''Insufficient permissions: Duplicate value''\<rparr>,
           \<lparr>br_value = ''10.0.0.3'', br_type = ''ip-src'', br_id = Some ''301'', br_error = None\<rparr>]\<rparr>"
proof -
  have k: "length (filter throws (units second_is_duplicate ''42''
      [ip_item ''10.0.0.1'', ip_item ''10.0.0.2'', ip_item ''10.0.0.3''])) = 1"
    by (simp add: units_def enumerate_eq_zip upt_rec throws_def second_is_duplicate_def)
  from bulk_report_counts [OF k] k show ?thesis
    by (simp add: units_def enumerate_eq_zip upt_rec throws_def created_id_def truthy_def
          second_is_duplicate_def created_as_def add_one_def ip_item_def status_prefix_def
          statusMessages_def)
qed

text \<open>
  C5 as stated gives \<open>succeeded = N - k\<close>. Here \<open>N = 1\<close> and no unit fails, but the
  attribute created carries no id: the report has \<open>succeeded = 0\<close> and \<open>failed = 0\<close>.
\<close>

theorem bulk_success_without_id:
  "length (filter throws (units answers_without_id ''42'' [ip_item ''10.0.0.1''])) = 0 \<and>
   misp_add_attributes_bulk answers_without_id ''42'' [ip_item ''10.0.0.1''] =
     ToolJson
       \<lparr>rep_total = 1, rep_succeeded = 0, rep_failed = 0,
        rep_results =
          [\<lparr>br_value = ''10.0.0.1'', br_type = ''ip-src'', br_id = None, br_error = None\<rparr>]\<rparr>"
  by (simp add: misp_add_attributes_bulk_def add_one_def units_def enumerate_eq_zip throws_def
        answers_without_id_def created_as_def ip_item_def truthy_def Let_def)

lemma unit_cases:
  "throws r \<longleftrightarrow> call_throws r \<or> returns_undefined r"
  "call_throws r \<Longrightarrow> \<not> returns_undefined r"
  "returns_without_id r \<longleftrightarrow> \<not> throws r \<and> \<not> truthy (created_id r)"
  by (auto simp: throws_def call_throws_def returns_undefined_def returns_without_id_def
        created_id_def truthy_def split: sum.splits option.splits)

lemma failed_units:
  "length (filter throws us) =
     length (filter call_throws us) + length (filter returns_undefined us)"
  by (induction us) (auto simp: unit_cases)

lemma client_add_without_attribute:
  "request w cfg n (addAttribute_call cfg eventId (bulk_params attr)) = Inr (JsonValue body) \<Longrightarrow>
   pb_Attribute body = None \<Longrightarrow>
   client_add w cfg n eventId (bulk_params attr) = Inr None"
  by (simp add: client_add_def addAttribute_def read_member_def bulk_params_def
        tags_requested_def Let_def)

text \<open>
  C9, amended. A row counts as succeeded exactly when the create returned an attribute
  with a truthy id, and as failed exactly when the item's \<open>try\<close> block threw: when the
  call of the client threw, and also when the call returned \<open>undefined\<close>, which it does
  when the platform answers 2xx with a value that has no \<open>Attribute\<close> member (the read
  of \<open>created.id\<close> then raises, and the row carries that \<open>TypeError\<close>'s message). The
  units that returned an attribute without a truthy id are in neither tally, so the
  three numbers add up to \<open>total\<close>, \<open>succeeded + failed\<close> never exceeds \<open>total\<close>, and
  it equals \<open>total\<close> exactly when every attribute returned carries a truthy id.
\<close>

theorem bulk_tallies_classified:
  "truthy (br_id (add_one add eventId i attr)) =
     (\<exists>created. add i eventId (bulk_params attr) = Inr (Some created) \<and> truthy (a_id created)) \<and>
   truthy (br_error (add_one add eventId i attr)) =
     ((\<exists>err. add i eventId (bulk_params attr) = Inl err) \<or>
      add i eventId (bulk_params attr) = Inr None) \<and>
   (add i eventId (bulk_params attr) = Inr None \<longrightarrow>
      add_one add eventId i attr =
        \<lparr>br_value = bi_value attr, br_type = bi_type attr, br_id = None,
         br_error = Some (error_message (UndefinedRead ''id''))\<rparr>) \<and>
   (request w cfg i (addAttribute_call cfg eventId (bulk_params attr)) = Inr (JsonValue body) \<and>
    pb_Attribute body = None \<longrightarrow>
      client_add w cfg i eventId (bulk_params attr) = Inr None) \<and>
   misp_add_attributes_bulk add eventId attrs =
     ToolJson
       \<lparr>rep_total = length attrs,
        rep_succeeded = length (filter (\<lambda>r. truthy (created_id r)) (units add eventId attrs)),
        rep_failed = length (filter call_throws (units add eventId attrs))
                     + length (filter returns_undefined (units add eventId attrs)),
        rep_results = map (\<lambda>(i, attr). add_one add eventId i attr) (enumerate 0 attrs)\<rparr> \<and>
   length (filter (\<lambda>r. truthy (created_id r)) (units add eventId attrs))
     + (length (filter call_throws (units add eventId attrs))
        + length (filter returns_undefined (units add eventId attrs)))
     + length (filter returns_without_id (units add eventId attrs))
     = length attrs \<and>
   length (filter (\<lambda>r. truthy (created_id r)) (units add eventId attrs))
     + (length (filter call_throws (units add eventId attrs))
        + length (filter returns_undefined (units add eventId attrs))) \<le> length attrs \<and>
   (length (filter (\<lambda>r. truthy (created_id r)) (units add eventId attrs))
     + (length (filter call_throws (units add eventId attrs))
        + length (filter returns_undefined (units add eventId attrs))) = length attrs
    \<longleftrightarrow> (\<forall>r \<in> set (units add eventId attrs). \<not> returns_without_id r))"
proof -
  have len: "length (units add eventId attrs) = length attrs"
    by (simp add: units_def)
  have neither: "filter (\<lambda>r. \<not> throws r \<and> \<not> truthy (created_id r)) us
                   = filter returns_without_id us" for us
    by (simp add: unit_cases(3) [symmetric])
  note t = tallies [of "units add eventId attrs", unfolded len neither failed_units]
  have none: "length (filter returns_without_id (units add eventId attrs)) = 0
      \<longleftrightarrow> (\<forall>r \<in> set (units add eventId attrs). \<not> returns_without_id r)"
    by (auto simp: filter_empty_conv)
  have id: "truthy (br_id (add_one add eventId i attr)) =
     (\<exists>created. add i eventId (bulk_params attr) = Inr (Some created) \<and> truthy (a_id created))"
    unfolding row_succeeded
    by (cases "add i eventId (bulk_params attr)")
       (auto simp: created_id_def truthy_def split: option.splits)
  have err: "truthy (br_error (add_one add eventId i attr)) =
     ((\<exists>err. add i eventId (bulk_params attr) = Inl err) \<or>
      add i eventId (bulk_params attr) = Inr None)"
    unfolding row_failed
    by (auto simp: throws_def split: sum.splits option.splits)
  have row: "add_one add eventId i attr =
        \<lparr>br_value = bi_value attr, br_type = bi_type attr, br_id = None,
         br_error = Some (error_message (UndefinedRead ''id''))\<rparr>"
    if "add i eventId (bulk_params attr) = Inr None"
    using that by (simp add: add_one_def)
  have client: "client_add w cfg i eventId (bulk_params attr) = Inr None"
    if "request w cfg i (addAttribute_call cfg eventId (bulk_params attr)) = Inr (JsonValue body) \<and>
        pb_Attribute body = None"
    using that client_add_without_attribute by blast
  have report: "misp_add_attributes_bulk add eventId attrs =
     ToolJson
       \<lparr>rep_total = length attrs,
        rep_succeeded = length (filter (\<lambda>r. truthy (created_id r)) (units add eventId attrs)),
        rep_failed = length (filter call_throws (units add eventId attrs))
                     + length (filter returns_undefined (units add eventId attrs)),
        rep_results = map (\<lambda>(i, attr). add_one add eventId i attr) (enumerate 0 attrs)\<rparr>"
    unfolding bulk_report failed_units by (rule refl)
  have le: "length (filter (\<lambda>r. truthy (created_id r)) (units add eventId attrs))
     + (length (filter call_throws (units add eventId attrs))
        + length (filter returns_undefined (units add eventId attrs))) \<le> length attrs"
    using t by linarith
  have eq: "length (filter (\<lambda>r. truthy (created_id r)) (units add eventId attrs))
     + (length (filter call_throws (units add eventId attrs))
        + length (filter returns_undefined (units add eventId attrs))) = length attrs
    \<longleftrightarrow> (\<forall>r \<in> set (units add eventId attrs). \<not> returns_without_id r)"
    unfolding none [symmetric] using t by linarith
  from id err row client report t le eq show ?thesis
    by (intro conjI impI)
qed

theorem bulk_tallies_classified_witness:
  "truthy (br_id (add_one mixed_answers ''42'' 0 (ip_item ''10.0.0.1''))) \<and>
   \<not> truthy (br_error (add_one mixed_answers ''42'' 0 (ip_item ''10.0.0.1''))) \<and>
   truthy (br_error (add_one mixed_answers ''42'' 1 (ip_item ''10.0.0.2''))) \<and>
   \<not> truthy (br_id (add_one mixed_answers ''42'' 2 (ip_item ''10.0.0.3''))) \<and>
   \<not> truthy (br_error (add_one mixed_answers ''42'' 2 (ip_item ''10.0.0.3''))) \<and>
   mixed_answers 3 ''42'' (bulk_params (ip_item ''10.0.0.4'')) = Inr None \<and>
   truthy (br_error (add_one mixed_answers ''42'' 3 (ip_item ''10.0.0.4''))) \<and>
   request (answering 12 (Responded 200 ''{}'')) misp_config 0
     (addAttribute_call misp_config ''42'' (bulk_params (ip_item ''10.0.0.1'')))
     = Inr (JsonValue empty_object) \<and>
   client_add (answering 12 (Responded 200 ''{}'')) misp_config 0 ''42''
     (bulk_params (ip_item ''10.0.0.1'')) = Inr None \<and>
   misp_add_attributes_bulk mixed_answers ''42''
      [ip_item ''10.0.0.1'', ip_item ''10.0.0.2'', ip_item ''10.0.0.3'', ip_item ''10.0.0.4''] =
     ToolJson
       \<lparr>rep_total = 4, rep_succeeded = 1, rep_failed = 2,
        rep_results =
          [\<lparr>br_value = ''10.0.0.1'', br_type = ''ip-src'', br_id = Some ''301'', br_error = None\<rparr>,
           \<lparr>br_value = ''10.0.0.2'', br_type = ''ip-src'', br_id = None,
            br_error = Some ''Insufficient permissions: Duplicate value''\<rparr>,
           \<lparr>br_value = ''10.0.0.3'', br_type = ''ip-src'', br_id = None, br_error = None\<rparr>,
           \<lparr>br_value = ''10.0.0.4'', br_type = ''ip-src'', br_id = None,
            br_error = Some (error_message (UndefinedRead ''id''))\<rparr>]\<rparr> \<and>
   length (filter returns_without_id (units mixed_answers ''42''
      [ip_item ''10.0.0.1'', ip_item ''10.0.0.2'', ip_item ''10.0.0.3'', ip_item ''10.0.0.4''])) = 1"
proof -
  let ?batch = "[ip_item ''10.0.0.1'', ip_item ''10.0.0.2'', ip_item ''10.0.0.3'',
                 ip_item ''10.0.0.4'']"
  have answers:
    "mixed_answers 0 ''42'' p = Inr (Some (created_as (Some ''301'')))"
    "mixed_answers (Suc 0) ''42'' p = Inl (StatusError 403 ''Duplicate value'')"
    "mixed_answers 2 ''42'' p = Inr (Some (created_as None))"
    "mixed_answers 3 ''42'' p = Inr None" for p
    by (simp_all add: mixed_answers_def)
  have ids: "a_id (created_as x) = x" for x
    by (simp add: created_as_def)
  have req: "request (answering 12 (Responded 200 ''{}'')) misp_config 0
     (addAttribute_call misp_config ''42'' (bulk_params (ip_item ''10.0.0.1'')))
     = Inr (JsonValue empty_object)"
    by (simp add: request_def request_text_def fetch_def timer_delay_def response_ok_def
          answering_def answering_slowly_def misp_config_def parse_braces_def)
  have no_attribute: "pb_Attribute empty_object = None"
    by (simp add: empty_object_def)
  note first = bulk_tallies_classified
     [where add = mixed_answers and eventId = "''42''" and i = 0 and attr = "ip_item ''10.0.0.1''"
        and attrs = ?batch and w = "answering 12 (Responded 200 ''{}'')" and cfg = misp_config
        and body = empty_object]
  note second = bulk_tallies_classified
     [where add = mixed_answers and eventId = "''42''" and i = 1 and attr = "ip_item ''10.0.0.2''"
        and attrs = "[]" and w = "answering 12 (Responded 200 ''{}'')" and cfg = misp_config
        and body = empty_object]
  note third = bulk_tallies_classified
     [where add = mixed_answers and eventId = "''42''" and i = 2 and attr = "ip_item ''10.0.0.3''"
        and attrs = "[]" and w = "answering 12 (Responded 200 ''{}'')" and cfg = misp_config
        and body = empty_object]
  note fourth = bulk_tallies_classified
     [where add = mixed_answers and eventId = "''42''" and i = 3 and attr = "ip_item ''10.0.0.4''"
        and attrs = "[]" and w = "answering 12 (Responded 200 ''{}'')" and cfg = misp_config
        and body = empty_object]
  from first [THEN conjunct1]
  have a: "truthy (br_id (add_one mixed_answers ''42'' 0 (ip_item ''10.0.0.1'')))"
    by (simp add: answers ids truthy_def)
  from first [THEN conjunct2, THEN conjunct1]
  have b: "\<not> truthy (br_error (add_one mixed_answers ''42'' 0 (ip_item ''10.0.0.1'')))"
    by (simp add: answers)
  from second [THEN conjunct2, THEN conjunct1]
  have c: "truthy (br_error (add_one mixed_answers ''42'' 1 (ip_item ''10.0.0.2'')))"
    by (simp add: answers)
  from third [THEN conjunct1]
  have d: "\<not> truthy (br_id (add_one mixed_answers ''42'' 2 (ip_item ''10.0.0.3'')))"
    by (simp add: answers ids truthy_def)
  from third [THEN conjunct2, THEN conjunct1]
  have e: "\<not> truthy (br_error (add_one mixed_answers ''42'' 2 (ip_item ''10.0.0.3'')))"
    by (simp add: answers)
  from fourth [THEN conjunct2, THEN conjunct1]
  have f: "truthy (br_error (add_one mixed_answers ''42'' 3 (ip_item ''10.0.0.4'')))"
    by (simp add: answers)
  from first req no_attribute have g:
    "client_add (answering 12 (Responded 200 ''{}'')) misp_config 0 ''42''
       (bulk_params (ip_item ''10.0.0.1'')) = Inr None"
    by blast
  have us: "units mixed_answers ''42'' ?batch =
      [Inr (Some (created_as (Some ''301''))), Inl (StatusError 403 ''Duplicate value''),
       Inr (Some (created_as None)), Inr None]"
    by (simp add: units_def enumerate_eq_zip upt_rec mixed_answers_def)
  have rows: "map (\<lambda>(i, attr). add_one mixed_answers ''42'' i attr) (enumerate 0 ?batch) =
          [\<lparr>br_value = ''10.0.0.1'', br_type = ''ip-src'', br_id = Some ''301'', br_error = None\<rparr>,
           \<lparr>br_value = ''10.0.0.2'', br_type = ''ip-src'', br_id = None,
            br_error = Some ''Insufficient permissions: Duplicate value''\<rparr>,
           \<lparr>br_value = ''10.0.0.3'', br_type = ''ip-src'', br_id = None, br_error = None\<rparr>,
           \<lparr>br_value = ''10.0.0.4'', br_type = ''ip-src'', br_id = None,
            br_error = Some (error_message (UndefinedRead ''id''))\<rparr>]"
    by (simp add: enumerate_eq_zip upt_rec add_one_def mixed_answers_def ids ip_item_def
          status_prefix_def statusMessages_def)
  have counts:
    "length (filter (\<lambda>r. truthy (created_id r)) (units mixed_answers ''42'' ?batch)) = 1"
    "length (filter call_throws (units mixed_answers ''42'' ?batch)) = 1"
    "length (filter returns_undefined (units mixed_answers ''42'' ?batch)) = 1"
    "length (filter returns_without_id (units mixed_answers ''42'' ?batch)) = 1"
    unfolding us
    by (simp_all add: created_id_def truthy_def call_throws_def returns_undefined_def
          returns_without_id_def ids)
  from first have report: "misp_add_attributes_bulk mixed_answers ''42'' ?batch =
     ToolJson
       \<lparr>rep_total = 4, rep_succeeded = 1, rep_failed = 2,
        rep_results =
          [\<lparr>br_value = ''10.0.0.1'', br_type = ''ip-src'', br_id = Some ''301'', br_error = None\<rparr>,
           \<lparr>br_value = ''10.0.0.2'', br_type = ''ip-src'', br_id = None,
            br_error = Some ''Insufficient permissions: Duplicate value''\<rparr>,
           \<lparr>br_value = ''10.0.0.3'', br_type = ''ip-src'', br_id = None, br_error = None\<rparr>,
           \<lparr>br_value = ''10.0.0.4'', br_type = ''ip-src'', br_id = None,
            br_error = Some (error_message (UndefinedRead ''id''))\<rparr>]\<rparr>"
    unfolding counts rows by simp
  from a b c d e answers(4) f req g report counts(4) show ?thesis
    by (intro conjI)
qed

text \<open>
  C9 as stated has a unit whose remote call succeeds with an answer that carries no id
  counted in neither tally. The platform answers the create with 200 and \<open>{}\<close>: the call
  of the client succeeds and returns \<open>undefined\<close>, and the item is counted as failed.
\<close>

theorem bulk_answer_without_attribute:
  "request (answering 12 (Responded 200 ''{}'')) misp_config 0
     (addAttribute_call misp_config ''42'' (bulk_params (ip_item ''10.0.0.1'')))
     = Inr (JsonValue empty_object) \<and>
   client_add (answering 12 (Responded 200 ''{}'')) misp_config 0 ''42''
     (bulk_params (ip_item ''10.0.0.1'')) = Inr None \<and>
   misp_add_attributes_bulk (client_add (answering 12 (Responded 200 ''{}'')) misp_config) ''42''
     [ip_item ''10.0.0.1''] =
     ToolJson
       \<lparr>rep_total = 1, rep_succeeded = 0, rep_failed = 1,
        rep_results =
          [\<lparr>br_value = ''10.0.0.1'', br_type = ''ip-src'', br_id = None,
            br_error = Some (''Cannot read properties of undefined (reading ''
                             @ [CHR 0x27] @ ''id'' @ [CHR 0x27] @ '')'')\<rparr>]\<rparr>"
  by (simp add: misp_add_attributes_bulk_def add_one_def client_add_def addAttribute_def
        read_member_def request_def request_text_def fetch_def timer_delay_def response_ok_def
        answering_def answering_slowly_def misp_config_def parse_braces_def empty_object_def
        bulk_params_def ip_item_def tags_requested_def truthy_def Let_def)

subsection \<open>Classification of a request\<close>

lemma request_text_aborted:
  "timer_delay (cfg_timeout cfg) < latency (network w n call) \<Longrightarrow>
   request_text w cfg n call = Inl (Timeout (cfg_timeout cfg))"
  by (simp add: request_text_def fetch_def abort_error_def)

lemma request_text_settled:
  "latency (network w n call) \<le> timer_delay (cfg_timeout cfg) \<Longrightarrow>
   request_text w cfg n call =
     (case settles (network w n call) of
        Rejected (ErrorObject name message) \<Rightarrow>
          if name = ''AbortError'' then Inl (Timeout (cfg_timeout cfg))
          else Inl (TransportFailure message)
      | Rejected (OtherValue s) \<Rightarrow> Inl (TransportFailure s)
      | BodyLost status c cs \<Rightarrow> Inl (BodyReadFailure c cs)
      | Responded status text \<Rightarrow>
          if \<not> response_ok status then Inl (StatusError status (error_detail w text))
          else Inr text)"
  by (simp add: request_text_def fetch_def)

lemma request_text_body_latency:
  "request_text (w\<lparr>network := \<lambda>i c. (network w i c)\<lparr>body_latency := d\<rparr>\<rparr>) cfg n call
     = request_text w cfg n call"
  by (simp add: request_text_def fetch_def error_detail_def
        split: fetch_outcome.split thrown.split)

text \<open>
  C7, amended. The timer guards \<open>fetch\<close> only, with the delay \<open>setTimeout\<close> applies:
  the configured number when it is an integer from 1 to 2147483647, and 1 millisecond
  otherwise. When that delay is over before \<open>fetch\<close> has settled, the request is
  aborted and both overloads of \<open>request\<close> fail with \<open>Timeout\<close> and the configured
  number, never with \<open>TransportFailure\<close>. When \<open>fetch\<close> is rejected in time by an error
  other than the abort (the platform keeps the name \<open>AbortError\<close> for aborts), or by a
  value that is no \<open>Error\<close>, they fail with \<open>TransportFailure\<close> and the cause's text.
  Once \<open>fetch\<close> has settled with a response, no timeout follows, however long the read
  of the body takes; and when the read of the body fails, both overloads fail with the
  error of the runtime as it is, under neither classification.
\<close>

theorem request_timeout_or_transport:
  "(timer_delay (cfg_timeout cfg) < latency (network w n call) \<longrightarrow>
      request w cfg n call = Inl (Timeout (cfg_timeout cfg)) \<and>
      request_raw w cfg n call = Inl (Timeout (cfg_timeout cfg)) \<and>
      request w cfg n call \<noteq> Inl (TransportFailure cause) \<and>
      request_raw w cfg n call \<noteq> Inl (TransportFailure cause)) \<and>
   (latency (network w n call) \<le> timer_delay (cfg_timeout cfg) \<and>
    settles (network w n call) = Rejected (ErrorObject name message) \<and>
    name \<noteq> ''AbortError'' \<longrightarrow>
      request w cfg n call = Inl (TransportFailure message) \<and>
      request_raw w cfg n call = Inl (TransportFailure message)) \<and>
   (latency (network w n call) \<le> timer_delay (cfg_timeout cfg) \<and>
    settles (network w n call) = Rejected (OtherValue s) \<longrightarrow>
      request w cfg n call = Inl (TransportFailure s) \<and>
      request_raw w cfg n call = Inl (TransportFailure s)) \<and>
   (latency (network w n call) \<le> timer_delay (cfg_timeout cfg) \<and>
    settles (network w n call) = BodyLost status c cs \<longrightarrow>
      request w cfg n call = Inl (BodyReadFailure c cs) \<and>
      request_raw w cfg n call = Inl (BodyReadFailure c cs) \<and>
      error_message (BodyReadFailure c cs) = c # cs) \<and>
   (latency (network w n call) \<le> timer_delay (cfg_timeout cfg) \<and>
    settles (network w n call) = Responded status content \<longrightarrow>
      request_raw w cfg n call =
        (if response_ok status then Inr content
         else Inl (StatusError status (error_detail w content))) \<and>
      request w cfg n call \<noteq> Inl (Timeout (cfg_timeout cfg)) \<and>
      request_raw w cfg n call \<noteq> Inl (Timeout (cfg_timeout cfg))) \<and>
   request (w\<lparr>network := \<lambda>i c. (network w i c)\<lparr>body_latency := d\<rparr>\<rparr>) cfg n call
     = request w cfg n call \<and>
   request_raw (w\<lparr>network := \<lambda>i c. (network w i c)\<lparr>body_latency := d\<rparr>\<rparr>) cfg n call
     = request_raw w cfg n call \<and>
   timer_delay (cfg_timeout cfg) =
     (case cfg_timeout cfg of
        Number i \<Rightarrow> if 1 \<le> i \<and> i \<le> 2147483647 then nat i else 1
      | _ \<Rightarrow> 1) \<and>
   error_message (Timeout (cfg_timeout cfg)) =
     ''MISP API timeout after '' @ number_text (cfg_timeout cfg) @ ''ms'' \<and>
   error_message (TransportFailure message) = ''MISP API request failed: '' @ message"
proof -
  have aborted:
    "request w cfg n call = Inl (Timeout (cfg_timeout cfg)) \<and>
     request_raw w cfg n call = Inl (Timeout (cfg_timeout cfg)) \<and>
     request w cfg n call \<noteq> Inl (TransportFailure cause) \<and>
     request_raw w cfg n call \<noteq> Inl (TransportFailure cause)"
    if "timer_delay (cfg_timeout cfg) < latency (network w n call)"
    using request_text_aborted [OF that] by (simp add: request_def request_raw_def)
  have rejected_error:
    "request w cfg n call = Inl (TransportFailure message) \<and>
     request_raw w cfg n call = Inl (TransportFailure message)"
    if "latency (network w n call) \<le> timer_delay (cfg_timeout cfg)"
      "settles (network w n call) = Rejected (ErrorObject name message)" "name \<noteq> ''AbortError''"
    using request_text_settled [OF that(1)] that(2,3) by (simp add: request_def request_raw_def)
  have rejected_value:
    "request w cfg n call = Inl (TransportFailure s) \<and>
     request_raw w cfg n call = Inl (TransportFailure s)"
    if "latency (network w n call) \<le> timer_delay (cfg_timeout cfg)"
      "settles (network w n call) = Rejected (OtherValue s)"
    using request_text_settled [OF that(1)] that(2) by (simp add: request_def request_raw_def)
  have lost:
    "request w cfg n call = Inl (BodyReadFailure c cs) \<and>
     request_raw w cfg n call = Inl (BodyReadFailure c cs) \<and>
     error_message (BodyReadFailure c cs) = c # cs"
    if "latency (network w n call) \<le> timer_delay (cfg_timeout cfg)"
      "settles (network w n call) = BodyLost status c cs"
    using request_text_settled [OF that(1)] that(2) by (simp add: request_def request_raw_def)
  have answered:
    "request_raw w cfg n call =
        (if response_ok status then Inr content
         else Inl (StatusError status (error_detail w content))) \<and>
      request w cfg n call \<noteq> Inl (Timeout (cfg_timeout cfg)) \<and>
      request_raw w cfg n call \<noteq> Inl (Timeout (cfg_timeout cfg))"
    if "latency (network w n call) \<le> timer_delay (cfg_timeout cfg)"
      "settles (network w n call) = Responded status content"
    using request_text_settled [OF that(1)] that(2)
    by (simp add: request_def request_raw_def split: option.split)
  have body:
    "request (w\<lparr>network := \<lambda>i c. (network w i c)\<lparr>body_latency := d\<rparr>\<rparr>) cfg n call
       = request w cfg n call"
    "request_raw (w\<lparr>network := \<lambda>i c. (network w i c)\<lparr>body_latency := d\<rparr>\<rparr>) cfg n call
       = request_raw w cfg n call"
    by (simp_all add: request_def request_raw_def request_text_body_latency split: sum.split)
  have delay: "timer_delay (cfg_timeout cfg) =
     (case cfg_timeout cfg of
        Number i \<Rightarrow> if 1 \<le> i \<and> i \<le> 2147483647 then nat i else 1
      | _ \<Rightarrow> 1)"
    by (auto simp: timer_delay_def split: js_number.split)
  show ?thesis
  proof (intro conjI impI)
    show "request w cfg n call = Inl (Timeout (cfg_timeout cfg))"
      "request_raw w cfg n call = Inl (Timeout (cfg_timeout cfg))"
      "request w cfg n call \<noteq> Inl (TransportFailure cause)"
      "request_raw w cfg n call \<noteq> Inl (TransportFailure cause)"
      if "timer_delay (cfg_timeout cfg) < latency (network w n call)"
      using aborted [OF that] by simp_all
    show "request w cfg n call = Inl (TransportFailure message)"
      "request_raw w cfg n call = Inl (TransportFailure message)"
      if "latency (network w n call) \<le> timer_delay (cfg_timeout cfg) \<and>
          settles (network w n call) = Rejected (ErrorObject name message) \<and>
          name \<noteq> ''AbortError''"
      using rejected_error that by simp_all
    show "request w cfg n call = Inl (TransportFailure s)"
      "request_raw w cfg n call = Inl (TransportFailure s)"
      if "latency (network w n call) \<le> timer_delay (cfg_timeout cfg) \<and>
          settles (network w n call) = Rejected (OtherValue s)"
      using rejected_value that by simp_all
    show "request w cfg n call = Inl (BodyReadFailure c cs)"
      "request_raw w cfg n call = Inl (BodyReadFailure c cs)"
      "error_message (BodyReadFailure c cs) = c # cs"
      if "latency (network w n call) \<le> timer_delay (cfg_timeout cfg) \<and>
          settles (network w n call) = BodyLost status c cs"
      using lost that by simp_all
    show "request_raw w cfg n call =
        (if response_ok status then Inr content
         else Inl (StatusError status (error_detail w content)))"
      "request w cfg n call \<noteq> Inl (Timeout (cfg_timeout cfg))"
      "request_raw w cfg n call \<noteq> Inl (Timeout (cfg_timeout cfg))"
      if "latency (network w n call) \<le> timer_delay (cfg_timeout cfg) \<and>
          settles (network w n call) = Responded status content"
      using answered that by simp_all
    show "request (w\<lparr>network := \<lambda>i c. (network w i c)\<lparr>body_latency := d\<rparr>\<rparr>) cfg n call
       = request w cfg n call"
      by (rule body(1))
    show "request_raw (w\<lparr>network := \<lambda>i c. (network w i c)\<lparr>body_latency := d\<rparr>\<rparr>) cfg n call
       = request_raw w cfg n call"
      by (rule body(2))
    show "timer_delay (cfg_timeout cfg) =
     (case cfg_timeout cfg of
        Number i \<Rightarrow> if 1 \<le> i \<and> i \<le> 2147483647 then nat i else 1
      | _ \<Rightarrow> 1)"
      by (rule delay)
    show "error_message (Timeout (cfg_timeout cfg)) =
       ''MISP API timeout after '' @ number_text (cfg_timeout cfg) @ ''ms''"
      by simp
    show "error_message (TransportFailure message) = ''MISP API request failed: '' @ message"
      by simp
  qed
qed

theorem request_timeout_or_transport_witness:
  "request (answering 30001 (Responded 200 ''{}'')) misp_config 0
     (searchEvents_call misp_config no_event_filters) = Inl (Timeout (Number 30000)) \<and>
   request (answering 12 (Rejected (ErrorObject ''TypeError'' ''fetch failed''))) misp_config 0
     (searchEvents_call misp_config no_event_filters) = Inl (TransportFailure ''fetch failed'') \<and>
   request (answering 12 (Rejected (OtherValue ''ECONNREFUSED''))) misp_config 0
     (searchEvents_call misp_config no_event_filters) = Inl (TransportFailure ''ECONNREFUSED'') \<and>
   request (answering 12 (BodyLost 200 CHR ''t'' ''erminated'')) misp_config 0
     (searchEvents_call misp_config no_event_filters)
     = Inl (BodyReadFailure CHR ''t'' ''erminated'') \<and>
   request_raw (answering_slowly 12 (Responded 200 ''{}'') 60000) misp_config 0
     (searchEvents_call misp_config no_event_filters) = Inr ''{}'' \<and>
   request (answering 12 (Responded 200 ''{}'')) (misp_config\<lparr>cfg_timeout := Number 3000000000\<rparr>) 0
     (searchEvents_call misp_config no_event_filters) = Inl (Timeout (Number 3000000000)) \<and>
   request (answering 12 (Responded 200 ''{}'')) (misp_config\<lparr>cfg_timeout := NaN\<rparr>) 0
     (searchEvents_call misp_config no_event_filters) = Inl (Timeout NaN) \<and>
   timer_delay (Number 30000) = 30000 \<and>
   timer_delay (Number 3000000000) = 1 \<and>
   timer_delay (Number 0) = 1 \<and>
   error_message (Timeout (Number 30000)) = ''MISP API timeout after 30000ms'' \<and>
   error_message (Timeout NaN) = ''MISP API timeout after NaNms''"
proof -
  have digits: "string_of_nat 30000 = ''30000''"
    by (simp add: string_of_nat.simps [of 30000] string_of_nat.simps [of 3000]
          string_of_nat.simps [of 300] string_of_nat.simps [of 30] string_of_nat.simps [of 3]
          digit_char_def)
  have late: "request (answering 30001 (Responded 200 ''{}'')) misp_config 0
     (searchEvents_call misp_config no_event_filters) = Inl (Timeout (Number 30000))"
    using request_timeout_or_transport
            [where cfg = misp_config and w = "answering 30001 (Responded 200 ''{}'')" and n = 0
               and call = "searchEvents_call misp_config no_event_filters"]
    by (simp add: answering_def answering_slowly_def misp_config_def timer_delay_def)
  have failed: "request (answering 12 (Rejected (ErrorObject ''TypeError'' ''fetch failed'')))
     misp_config 0 (searchEvents_call misp_config no_event_filters)
       = Inl (TransportFailure ''fetch failed'')"
    using request_timeout_or_transport
            [where cfg = misp_config
               and w = "answering 12 (Rejected (ErrorObject ''TypeError'' ''fetch failed''))"
               and n = 0 and call = "searchEvents_call misp_config no_event_filters"
               and name = "''TypeError''" and message = "''fetch failed''"]
    by (simp add: answering_def answering_slowly_def misp_config_def timer_delay_def)
  have refused: "request (answering 12 (Rejected (OtherValue ''ECONNREFUSED''))) misp_config 0
     (searchEvents_call misp_config no_event_filters) = Inl (TransportFailure ''ECONNREFUSED'')"
    using request_timeout_or_transport
            [where cfg = misp_config and w = "answering 12 (Rejected (OtherValue ''ECONNREFUSED''))"
               and n = 0 and call = "searchEvents_call misp_config no_event_filters"
               and s = "''ECONNREFUSED''"]
    by (simp add: answering_def answering_slowly_def misp_config_def timer_delay_def)
  have lost: "request (answering 12 (BodyLost 200 CHR ''t'' ''erminated'')) misp_config 0
     (searchEvents_call misp_config no_event_filters)
     = Inl (BodyReadFailure CHR ''t'' ''erminated'')"
    using request_timeout_or_transport
            [where cfg = misp_config and w = "answering 12 (BodyLost 200 CHR ''t'' ''erminated'')"
               and n = 0 and call = "searchEvents_call misp_config no_event_filters"
               and status = 200 and c = "CHR ''t''" and cs = "''erminated''"]
    by (simp add: answering_def answering_slowly_def misp_config_def timer_delay_def)
  have slow: "request_raw (answering_slowly 12 (Responded 200 ''{}'') 60000) misp_config 0
     (searchEvents_call misp_config no_event_filters) = Inr ''{}''"
    using request_timeout_or_transport
            [where cfg = misp_config and w = "answering_slowly 12 (Responded 200 ''{}'') 60000"
               and n = 0 and call = "searchEvents_call misp_config no_event_filters"
               and status = 200 and content = "''{}''"]
    by (simp add: answering_slowly_def misp_config_def timer_delay_def response_ok_def)
  have huge: "request (answering 12 (Responded 200 ''{}''))
     (misp_config\<lparr>cfg_timeout := Number 3000000000\<rparr>) 0
     (searchEvents_call misp_config no_event_filters) = Inl (Timeout (Number 3000000000))"
    using request_timeout_or_transport
            [where cfg = "misp_config\<lparr>cfg_timeout := Number 3000000000\<rparr>"
               and w = "answering 12 (Responded 200 ''{}'')" and n = 0
               and call = "searchEvents_call misp_config no_event_filters"]
    by (simp add: answering_def answering_slowly_def)
  have nan: "request (answering 12 (Responded 200 ''{}'')) (misp_config\<lparr>cfg_timeout := NaN\<rparr>) 0
     (searchEvents_call misp_config no_event_filters) = Inl (Timeout NaN)"
    using request_timeout_or_transport
            [where cfg = "misp_config\<lparr>cfg_timeout := NaN\<rparr>"
               and w = "answering 12 (Responded 200 ''{}'')" and n = 0
               and call = "searchEvents_call misp_config no_event_filters"]
    by (simp add: answering_def answering_slowly_def)
  have delays: "timer_delay (Number 30000) = 30000" "timer_delay (Number 3000000000) = 1"
    "timer_delay (Number 0) = 1"
    by (simp_all add: timer_delay_def)
  have messages: "error_message (Timeout (Number 30000)) = ''MISP API timeout after 30000ms''"
    "error_message (Timeout NaN) = ''MISP API timeout after NaNms''"
    by (simp_all add: number_text_def digits)
  from late failed refused lost slow huge nan delays messages show ?thesis
    by (intro conjI)
qed

text \<open>
  C7 as stated has every network failure that is not a timeout fail with
  \<open>TransportFailure\<close>, and every call that outlasts the configured duration fail with
  \<open>Timeout\<close>. With the timeout of 30 seconds: the connection is lost while the body is
  read, and the call fails with the error of the runtime, whose message does not start
  with \<open>MISP API request failed\<close>; the status and the headers arrive after 12
  milliseconds and the body a minute later, and the call succeeds.
\<close>

theorem body_read_unguarded:
  "request (answering 12 (BodyLost 200 CHR ''t'' ''erminated'')) misp_config 0
     (searchEvents_call misp_config no_event_filters)
     = Inl (BodyReadFailure CHR ''t'' ''erminated'') \<and>
   error_message (BodyReadFailure CHR ''t'' ''erminated'') = ''terminated'' \<and>
   cfg_timeout misp_config = Number 30000 \<and>
   body_latency (network (answering_slowly 12 (Responded 200 ''{}'') 60000) 0
     (searchEvents_call misp_config no_event_filters)) = 60000 \<and>
   request (answering_slowly 12 (Responded 200 ''{}'') 60000) misp_config 0
     (searchEvents_call misp_config no_event_filters) = Inr (JsonValue empty_object)"
  by (simp add: request_def request_text_def fetch_def timer_delay_def response_ok_def
        answering_def answering_slowly_def misp_config_def parse_braces_def)

lemma request_text_answered:
  "fetch (cfg_timeout cfg) (network w n call) = Responded status text \<Longrightarrow>
   response_ok status \<Longrightarrow> request_text w cfg n call = Inr text"
  by (simp add: request_text_def)

text \<open>
  C8, amended. A request that is answered with a 2xx status fails with
  \<open>MalformedResponse\<close> (and the first 200 characters of the body) exactly when
  \<open>JSON.parse\<close> throws on the body; any body that parses is returned as it is, with no
  check of its structure. So are the two searches classified: they fail with
  \<open>MalformedResponse\<close> exactly when \<open>JSON.parse\<close> throws. An answer that is a value
  other than \<open>null\<close> without the \<open>response\<close> member (or, for attributes, without
  \<open>response.Attribute\<close>) is read as an empty result; the answer \<open>null\<close> makes the read
  of \<open>response\<close> raise, and the search fails with that \<open>TypeError\<close>.
\<close>

theorem success_body_parsed_unchecked:
  assumes "fetch (cfg_timeout cfg) (network w n call) = Responded status text"
    and "response_ok status"
  shows
    "request w cfg n call =
       (case JSON_parse w text of
          None \<Rightarrow> Inl (MalformedResponse (take 200 text))
        | Some data \<Rightarrow> Inr data) \<and>
     (call = searchEvents_call cfg ep \<longrightarrow>
        (searchEvents w cfg n ep = Inl (MalformedResponse t)
           \<longleftrightarrow> JSON_parse w text = None \<and> t = take 200 text)) \<and>
     (call = searchAttributes_call cfg sp \<longrightarrow>
        (searchAttributes w cfg n sp = Inl (MalformedResponse t)
           \<longleftrightarrow> JSON_parse w text = None \<and> t = take 200 text)) \<and>
     (call = searchEvents_call cfg ep \<and> JSON_parse w text = Some (JsonValue body) \<and>
      pb_response body = None \<longrightarrow> searchEvents w cfg n ep = Inr []) \<and>
     (call = searchAttributes_call cfg sp \<and> JSON_parse w text = Some (JsonValue body) \<and>
      (pb_response body = None \<or> pb_response body = Some (ResponseObject None) \<or>
       pb_response body = Some (ResponseArray items)) \<longrightarrow>
        searchAttributes w cfg n sp = Inr []) \<and>
     (call = searchEvents_call cfg ep \<and> JSON_parse w text = Some JsonNull \<longrightarrow>
        searchEvents w cfg n ep = Inl (NullRead ''response'')) \<and>
     (call = searchAttributes_call cfg sp \<and> JSON_parse w text = Some JsonNull \<longrightarrow>
        searchAttributes w cfg n sp = Inl (NullRead ''response''))"
proof -
  note t = request_text_answered [OF assms]
  have r: "request w cfg n call =
       (case JSON_parse w text of
          None \<Rightarrow> Inl (MalformedResponse (take 200 text))
        | Some data \<Rightarrow> Inr data)"
    by (simp add: request_def t)
  have em: "searchEvents w cfg n ep = Inl (MalformedResponse t)
           \<longleftrightarrow> JSON_parse w text = None \<and> t = take 200 text"
    if "call = searchEvents_call cfg ep"
    using that r
    by (auto simp: searchEvents_def read_member_def
          split: option.splits parsed.splits response_member.splits)
  have am: "searchAttributes w cfg n sp = Inl (MalformedResponse t)
           \<longleftrightarrow> JSON_parse w text = None \<and> t = take 200 text"
    if "call = searchAttributes_call cfg sp"
    using that r
    by (auto simp: searchAttributes_def read_member_def
          split: option.splits parsed.splits response_member.splits)
  have e: "searchEvents w cfg n ep = Inr []"
    if "call = searchEvents_call cfg ep" "JSON_parse w text = Some (JsonValue body)"
      "pb_response body = None"
    using that r by (simp add: searchEvents_def read_member_def)
  have a: "searchAttributes w cfg n sp = Inr []"
    if "call = searchAttributes_call cfg sp" "JSON_parse w text = Some (JsonValue body)"
      "pb_response body = None \<or> pb_response body = Some (ResponseObject None) \<or>
       pb_response body = Some (ResponseArray items)"
    using that r by (auto simp: searchAttributes_def read_member_def)
  have en: "searchEvents w cfg n ep = Inl (NullRead ''response'')"
    if "call = searchEvents_call cfg ep" "JSON_parse w text = Some JsonNull"
    using that r by (simp add: searchEvents_def read_member_def)
  have an: "searchAttributes w cfg n sp = Inl (NullRead ''response'')"
    if "call = searchAttributes_call cfg sp" "JSON_parse w text = Some JsonNull"
    using that r by (simp add: searchAttributes_def read_member_def)
  show ?thesis
  proof (intro conjI impI)
    show "request w cfg n call =
       (case JSON_parse w text of
          None \<Rightarrow> Inl (MalformedResponse (take 200 text))
        | Some data \<Rightarrow> Inr data)"
      by (rule r)
    show "searchEvents w cfg n ep = Inl (MalformedResponse t)
           \<longleftrightarrow> JSON_parse w text = None \<and> t = take 200 text"
      if "call = searchEvents_call cfg ep"
      using that by (rule em)
    show "searchAttributes w cfg n sp = Inl (MalformedResponse t)
           \<longleftrightarrow> JSON_parse w text = None \<and> t = take 200 text"
      if "call = searchAttributes_call cfg sp"
      using that by (rule am)
    show "searchEvents w cfg n ep = Inr []"
      if "call = searchEvents_call cfg ep \<and> JSON_parse w text = Some (JsonValue body) \<and>
          pb_response body = None"
      using that e by simp
    show "searchAttributes w cfg n sp = Inr []"
      if "call = searchAttributes_call cfg sp \<and> JSON_parse w text = Some (JsonValue body) \<and>
          (pb_response body = None \<or> pb_response body = Some (ResponseObject None) \<or>
           pb_response body = Some (ResponseArray items))"
      using that a by simp
    show "searchEvents w cfg n ep = Inl (NullRead ''response'')"
      if "call = searchEvents_call cfg ep \<and> JSON_parse w text = Some JsonNull"
      using that en by simp
    show "searchAttributes w cfg n sp = Inl (NullRead ''response'')"
      if "call = searchAttributes_call cfg sp \<and> JSON_parse w text = Some JsonNull"
      using that an by simp
  qed
qed

theorem success_body_parsed_unchecked_witness:
  "request (answering 12 (Responded 200 ''<html>Bad gateway</html>'')) misp_config 0
     (searchEvents_call misp_config no_event_filters)
     = Inl (MalformedResponse ''<html>Bad gateway</html>'') \<and>
   searchEvents (answering 12 (Responded 200 ''<html>Bad gateway</html>'')) misp_config 0
     no_event_filters = Inl (MalformedResponse ''<html>Bad gateway</html>'') \<and>
   request (answering 12 (Responded 200 ''{}'')) misp_config 0
     (searchEvents_call misp_config no_event_filters) = Inr (JsonValue empty_object) \<and>
   searchEvents (answering 12 (Responded 200 ''{}'')) misp_config 0 no_event_filters = Inr [] \<and>
   request (answering 12 (Responded 200 ''null'')) misp_config 0
     (searchAttributes_call misp_config no_attribute_filters) = Inr JsonNull \<and>
   searchAttributes (answering 12 (Responded 200 ''null'')) misp_config 0 no_attribute_filters
     = Inl (NullRead ''response'') \<and>
   searchEvents (answering 12 (Responded 200 ''null'')) misp_config 0 no_event_filters
     = Inl (NullRead ''response'')"
proof -
  have f: "fetch (cfg_timeout misp_config) (network (answering 12 (Responded 200 body)) 0 call)
             = Responded 200 body" for body call
    by (simp add: fetch_def timer_delay_def answering_def answering_slowly_def misp_config_def)
  have ok: "response_ok 200"
    by (simp add: response_ok_def)
  have p: "JSON_parse (answering 12 outcome) = parse_braces" for outcome
    by (simp add: answering_def answering_slowly_def)
  note html = success_body_parsed_unchecked
                [OF f [of "''<html>Bad gateway</html>''"
                         "searchEvents_call misp_config no_event_filters"] ok,
                 where ep = no_event_filters and t = "''<html>Bad gateway</html>''"]
  note braces = success_body_parsed_unchecked
                [OF f [of "''{}''" "searchEvents_call misp_config no_event_filters"] ok,
                 where ep = no_event_filters and body = empty_object]
  note null_attributes = success_body_parsed_unchecked
                [OF f [of "''null''" "searchAttributes_call misp_config no_attribute_filters"] ok,
                 where sp = no_attribute_filters]
  note null_events = success_body_parsed_unchecked
                [OF f [of "''null''" "searchEvents_call misp_config no_event_filters"] ok,
                 where ep = no_event_filters]
  from html have a: "request (answering 12 (Responded 200 ''<html>Bad gateway</html>'')) misp_config 0
     (searchEvents_call misp_config no_event_filters)
     = Inl (MalformedResponse ''<html>Bad gateway</html>'')"
    and b: "searchEvents (answering 12 (Responded 200 ''<html>Bad gateway</html>'')) misp_config 0
     no_event_filters = Inl (MalformedResponse ''<html>Bad gateway</html>'')"
    by (simp_all add: p parse_braces_def)
  from braces have c: "request (answering 12 (Responded 200 ''{}'')) misp_config 0
     (searchEvents_call misp_config no_event_filters) = Inr (JsonValue empty_object)"
    and d: "searchEvents (answering 12 (Responded 200 ''{}'')) misp_config 0 no_event_filters = Inr []"
    by (simp_all add: p parse_braces_def empty_object_def)
  from null_attributes have e: "request (answering 12 (Responded 200 ''null'')) misp_config 0
     (searchAttributes_call misp_config no_attribute_filters) = Inr JsonNull"
    and g: "searchAttributes (answering 12 (Responded 200 ''null'')) misp_config 0
     no_attribute_filters = Inl (NullRead ''response'')"
    by (simp_all add: p parse_braces_def)
  from null_events have h: "searchEvents (answering 12 (Responded 200 ''null'')) misp_config 0
     no_event_filters = Inl (NullRead ''response'')"
    by (simp add: p parse_braces_def)
  from a b c d e g h show ?thesis
    by (intro conjI)
qed

text \<open>
  C8 as stated has a 2xx search answer that lacks the expected shape fail with
  \<open>MalformedResponse\<close>. The body \<open>{}\<close> is valid JSON without a \<open>response\<close> member:
  both searches return the empty list.
\<close>

theorem search_shapeless_body_is_empty:
  "searchAttributes (answering 12 (Responded 200 ''{}'')) misp_config 0 no_attribute_filters
     = Inr [] \<and>
   searchEvents (answering 12 (Responded 200 ''{}'')) misp_config 0 no_event_filters = Inr []"
  by (simp add: searchAttributes_def searchEvents_def request_def request_text_def fetch_def
        response_ok_def answering_def answering_slowly_def misp_config_def parse_braces_def
        empty_object_def read_member_def timer_delay_def)

subsection \<open>Creation with tags\<close>

lemma tag_each_all_ok:
  "(\<And>i. i < length tags \<Longrightarrow> \<exists>d. request w cfg (n + i) (call_of (tags ! i)) = Inr d) \<Longrightarrow>
   tag_each w cfg n call_of tags calls = (Inr (), calls @ map call_of tags)"
proof (induction tags arbitrary: n calls)
  case Nil
  show ?case by simp
next
  case (Cons tag tags)
  from Cons.prems [of 0] obtain d where d: "request w cfg n (call_of tag) = Inr d" by auto
  have "\<exists>d. request w cfg (Suc n + i) (call_of (tags ! i)) = Inr d" if "i < length tags" for i
    using Cons.prems [of "Suc i"] that by simp
  from Cons.IH [OF this] d show ?case by simp
qed

lemma tag_each_first_failure:
  "j < length tags \<Longrightarrow>
   (\<And>i. i < j \<Longrightarrow> \<exists>d. request w cfg (n + i) (call_of (tags ! i)) = Inr d) \<Longrightarrow>
   request w cfg (n + j) (call_of (tags ! j)) = Inl err \<Longrightarrow>
   tag_each w cfg n call_of tags calls = (Inl err, calls @ map call_of (take (Suc j) tags))"
proof (induction tags arbitrary: n calls j)
  case Nil
  then show ?case by simp
next
  case (Cons tag tags)
  show ?case
  proof (cases j)
    case 0
    with Cons.prems show ?thesis by simp
  next
    case (Suc j')
    from Cons.prems(2) [of 0] Suc obtain d where d: "request w cfg n (call_of tag) = Inr d"
      by auto
    have ok: "\<exists>d. request w cfg (Suc n + i) (call_of (tags ! i)) = Inr d" if "i < j'" for i
      using Cons.prems(2) [of "Suc i"] that Suc by simp
    have bad: "request w cfg (Suc n + j') (call_of (tags ! j')) = Inl err"
      using Cons.prems(3) Suc by simp
    have "j' < length tags" using Cons.prems(1) Suc by simp
    from Cons.IH [OF this ok bad] d Suc show ?thesis by simp
  qed
qed

lemma createEvent_untagged:
  "\<not> tags_requested (ce_tags params) \<Longrightarrow>
   createEvent w cfg n params =
     (case request w cfg n (createEvent_call cfg params) of
        Inl err \<Rightarrow> Inl err
      | Inr data \<Rightarrow> read_member pb_Event ''Event'' data,
      [createEvent_call cfg params])"
  by (simp add: createEvent_def Let_def split: sum.split)

lemma createEvent_tagged:
  assumes "tags_requested (ce_tags params)"
    and "request w cfg n (createEvent_call cfg params) = Inr (JsonValue data)"
    and "pb_Event data = Some ev" and "e_id ev = Some eid" and "eid \<noteq> []"
    and "\<And>i. i < length (tags_of (ce_tags params)) \<Longrightarrow>
           \<exists>d. request w cfg (Suc n + i) (tagEvent_call cfg eid (tags_of (ce_tags params) ! i)) = Inr d"
  shows "createEvent w cfg n params =
     (getEvent w cfg (Suc n + length (tags_of (ce_tags params))) eid,
      [createEvent_call cfg params] @ map (tagEvent_call cfg eid) (tags_of (ce_tags params))
        @ [getEvent_call cfg eid])"
proof -
  have "tag_each w cfg (Suc n) (tagEvent_call cfg eid) (tags_of (ce_tags params))
          [createEvent_call cfg params] =
        (Inr (), [createEvent_call cfg params]
                  @ map (tagEvent_call cfg eid) (tags_of (ce_tags params)))"
    by (rule tag_each_all_ok) (rule assms(6))
  with assms(1-5) show ?thesis
    by (simp add: createEvent_def Let_def truthy_def js_or_def read_member_def)
qed

lemma createEvent_tag_fails:
  assumes "tags_requested (ce_tags params)"
    and "request w cfg n (createEvent_call cfg params) = Inr (JsonValue data)"
    and "pb_Event data = Some ev" and "e_id ev = Some eid" and "eid \<noteq> []"
    and "j < length (tags_of (ce_tags params))"
    and "\<And>i. i < j \<Longrightarrow>
           \<exists>d. request w cfg (Suc n + i) (tagEvent_call cfg eid (tags_of (ce_tags params) ! i)) = Inr d"
    and "request w cfg (Suc n + j) (tagEvent_call cfg eid (tags_of (ce_tags params) ! j)) = Inl err"
  shows "createEvent w cfg n params =
     (Inl err,
      [createEvent_call cfg params]
        @ map (tagEvent_call cfg eid) (take (Suc j) (tags_of (ce_tags params))))"
proof -
  have "tag_each w cfg (Suc n) (tagEvent_call cfg eid) (tags_of (ce_tags params))
          [createEvent_call cfg params] =
        (Inl err, [createEvent_call cfg params]
                  @ map (tagEvent_call cfg eid) (take (Suc j) (tags_of (ce_tags params))))"
    by (rule tag_each_first_failure) (rule assms(6) assms(7) assms(8), assumption?)+
  with assms(1-5) show ?thesis
    by (simp add: createEvent_def Let_def truthy_def js_or_def read_member_def)
qed

lemma addAttribute_untagged:
  "\<not> tags_requested (ap_tags params) \<Longrightarrow>
   addAttribute w cfg n eventId params =
     (case request w cfg n (addAttribute_call cfg eventId params) of
        Inl err \<Rightarrow> Inl err
      | Inr data \<Rightarrow> read_member pb_Attribute ''Attribute'' data,
      [addAttribute_call cfg eventId params])"
  by (simp add: addAttribute_def Let_def split: sum.split)

lemma addAttribute_tagged:
  assumes "tags_requested (ap_tags params)"
    and "request w cfg n (addAttribute_call cfg eventId params) = Inr (JsonValue data)"
    and "pb_Attribute data = Some created" and "a_id created = Some aid" and "aid \<noteq> []"
    and "\<And>i. i < length (tags_of (ap_tags params)) \<Longrightarrow>
           \<exists>d. request w cfg (Suc n + i) (addTag_call cfg aid (tags_of (ap_tags params) ! i)) = Inr d"
  shows "addAttribute w cfg n eventId params =
     (Inr (Some created),
      [addAttribute_call cfg eventId params]
        @ map (addTag_call cfg aid) (tags_of (ap_tags params)))"
proof -
  have "tag_each w cfg (Suc n) (addTag_call cfg aid) (tags_of (ap_tags params))
          [addAttribute_call cfg eventId params] =
        (Inr (), [addAttribute_call cfg eventId params]
                  @ map (addTag_call cfg aid) (tags_of (ap_tags params)))"
    by (rule tag_each_all_ok) (rule assms(6))
  with assms(1-5) show ?thesis
    by (simp add: addAttribute_def Let_def truthy_def js_or_def read_member_def)
qed

lemma addAttribute_tag_fails:
  assumes "tags_requested (ap_tags params)"
    and "request w cfg n (addAttribute_call cfg eventId params) = Inr (JsonValue data)"
    and "pb_Attribute data = Some created" and "a_id created = Some aid" and "aid \<noteq> []"
    and "j < length (tags_of (ap_tags params))"
    and "\<And>i. i < j \<Longrightarrow>
           \<exists>d. request w cfg (Suc n + i) (addTag_call cfg aid (tags_of (ap_tags params) ! i)) = Inr d"
    and "request w cfg (Suc n + j) (addTag_call cfg aid (tags_of (ap_tags params) ! j)) = Inl err"
  shows "addAttribute w cfg n eventId params =
     (Inl err,
      [addAttribute_call cfg eventId params]
        @ map (addTag_call cfg aid) (take (Suc j) (tags_of (ap_tags params))))"
proof -
  have "tag_each w cfg (Suc n) (addTag_call cfg aid) (tags_of (ap_tags params))
          [addAttribute_call cfg eventId params] =
        (Inl err, [addAttribute_call cfg eventId params]
                  @ map (addTag_call cfg aid) (take (Suc j) (tags_of (ap_tags params))))"
    by (rule tag_each_first_failure) (rule assms(6) assms(7) assms(8), assumption?)+
  with assms(1-5) show ?thesis
    by (simp add: addAttribute_def Let_def truthy_def js_or_def read_member_def)
qed

text \<open>
  C6, amended. Without tags, \<open>createEvent\<close> and \<open>addAttribute\<close> issue the create
  request alone and return its answer. With tags, once the create request has answered
  with an entity that has an id: when every tag request succeeds, the requests are the
  create request and one tag request per tag, in order; \<open>createEvent\<close> then fetches the
  event once and returns what it fetched, \<open>addAttribute\<close> fetches nothing and returns the
  answer of the create request. When the tag request \<open>j\<close> is the first to fail, no
  request follows it (no later tag, no fetch) and the method fails with that error.
\<close>

theorem create_with_tags:
  "(\<not> tags_requested (ce_tags ep) \<longrightarrow>
      createEvent w cfg n ep =
        (case request w cfg n (createEvent_call cfg ep) of
           Inl err \<Rightarrow> Inl err
         | Inr data \<Rightarrow> read_member pb_Event ''Event'' data,
         [createEvent_call cfg ep])) \<and>
   (\<not> tags_requested (ap_tags ap) \<longrightarrow>
      addAttribute w cfg n eventId ap =
        (case request w cfg n (addAttribute_call cfg eventId ap) of
           Inl err \<Rightarrow> Inl err
         | Inr data \<Rightarrow> read_member pb_Attribute ''Attribute'' data,
         [addAttribute_call cfg eventId ap])) \<and>
   (tags_requested (ce_tags ep) \<and> request w cfg n (createEvent_call cfg ep) = Inr (JsonValue data) \<and>
    pb_Event data = Some ev \<and> e_id ev = Some eid \<and> eid \<noteq> [] \<longrightarrow>
      ((\<forall>i < length (tags_of (ce_tags ep)).
          \<exists>d. request w cfg (Suc n + i) (tagEvent_call cfg eid (tags_of (ce_tags ep) ! i)) = Inr d) \<longrightarrow>
       createEvent w cfg n ep =
         (getEvent w cfg (Suc n + length (tags_of (ce_tags ep))) eid,
          [createEvent_call cfg ep] @ map (tagEvent_call cfg eid) (tags_of (ce_tags ep))
            @ [getEvent_call cfg eid])) \<and>
      (j < length (tags_of (ce_tags ep)) \<and>
       (\<forall>i < j. \<exists>d. request w cfg (Suc n + i)
                       (tagEvent_call cfg eid (tags_of (ce_tags ep) ! i)) = Inr d) \<and>
       request w cfg (Suc n + j) (tagEvent_call cfg eid (tags_of (ce_tags ep) ! j)) = Inl err \<longrightarrow>
       createEvent w cfg n ep =
         (Inl err,
          [createEvent_call cfg ep]
            @ map (tagEvent_call cfg eid) (take (Suc j) (tags_of (ce_tags ep)))))) \<and>
   (tags_requested (ap_tags ap) \<and> request w cfg n (addAttribute_call cfg eventId ap) = Inr (JsonValue data) \<and>
    pb_Attribute data = Some created \<and> a_id created = Some aid \<and> aid \<noteq> [] \<longrightarrow>
      ((\<forall>i < length (tags_of (ap_tags ap)).
          \<exists>d. request w cfg (Suc n + i) (addTag_call cfg aid (tags_of (ap_tags ap) ! i)) = Inr d) \<longrightarrow>
       addAttribute w cfg n eventId ap =
         (Inr (Some created),
          [addAttribute_call cfg eventId ap] @ map (addTag_call cfg aid) (tags_of (ap_tags ap)))) \<and>
      (j < length (tags_of (ap_tags ap)) \<and>
       (\<forall>i < j. \<exists>d. request w cfg (Suc n + i)
                       (addTag_call cfg aid (tags_of (ap_tags ap) ! i)) = Inr d) \<and>
       request w cfg (Suc n + j) (addTag_call cfg aid (tags_of (ap_tags ap) ! j)) = Inl err \<longrightarrow>
       addAttribute w cfg n eventId ap =
         (Inl err,
          [addAttribute_call cfg eventId ap]
            @ map (addTag_call cfg aid) (take (Suc j) (tags_of (ap_tags ap))))))"
proof (intro conjI impI; (elim conjE)?)
  show "createEvent w cfg n ep =
        (case request w cfg n (createEvent_call cfg ep) of
           Inl err \<Rightarrow> Inl err
         | Inr data \<Rightarrow> read_member pb_Event ''Event'' data,
         [createEvent_call cfg ep])"
    if "\<not> tags_requested (ce_tags ep)"
    using that by (rule createEvent_untagged)
  show "addAttribute w cfg n eventId ap =
        (case request w cfg n (addAttribute_call cfg eventId ap) of
           Inl err \<Rightarrow> Inl err
         | Inr data \<Rightarrow> read_member pb_Attribute ''Attribute'' data,
         [addAttribute_call cfg eventId ap])"
    if "\<not> tags_requested (ap_tags ap)"
    using that by (rule addAttribute_untagged)
  show "createEvent w cfg n ep =
         (getEvent w cfg (Suc n + length (tags_of (ce_tags ep))) eid,
          [createEvent_call cfg ep] @ map (tagEvent_call cfg eid) (tags_of (ce_tags ep))
            @ [getEvent_call cfg eid])"
    if "tags_requested (ce_tags ep)" "request w cfg n (createEvent_call cfg ep) = Inr (JsonValue data)"
      "pb_Event data = Some ev" "e_id ev = Some eid" "eid \<noteq> []"
      "\<forall>i < length (tags_of (ce_tags ep)).
          \<exists>d. request w cfg (Suc n + i) (tagEvent_call cfg eid (tags_of (ce_tags ep) ! i)) = Inr d"
    using that by (intro createEvent_tagged) auto
  show "createEvent w cfg n ep =
         (Inl err,
          [createEvent_call cfg ep]
            @ map (tagEvent_call cfg eid) (take (Suc j) (tags_of (ce_tags ep))))"
    if "tags_requested (ce_tags ep)" "request w cfg n (createEvent_call cfg ep) = Inr (JsonValue data)"
      "pb_Event data = Some ev" "e_id ev = Some eid" "eid \<noteq> []"
      "j < length (tags_of (ce_tags ep))"
      "\<forall>i < j. \<exists>d. request w cfg (Suc n + i)
                       (tagEvent_call cfg eid (tags_of (ce_tags ep) ! i)) = Inr d"
      "request w cfg (Suc n + j) (tagEvent_call cfg eid (tags_of (ce_tags ep) ! j)) = Inl err"
    using that by (intro createEvent_tag_fails) auto
  show "addAttribute w cfg n eventId ap =
         (Inr (Some created),
          [addAttribute_call cfg eventId ap] @ map (addTag_call cfg aid) (tags_of (ap_tags ap)))"
    if "tags_requested (ap_tags ap)" "request w cfg n (addAttribute_call cfg eventId ap) = Inr (JsonValue data)"
      "pb_Attribute data = Some created" "a_id created = Some aid" "aid \<noteq> []"
      "\<forall>i < length (tags_of (ap_tags ap)).
          \<exists>d. request w cfg (Suc n + i) (addTag_call cfg aid (tags_of (ap_tags ap) ! i)) = Inr d"
    using that by (intro addAttribute_tagged) auto
  show "addAttribute w cfg n eventId ap =
         (Inl err,
          [addAttribute_call cfg eventId ap]
            @ map (addTag_call cfg aid) (take (Suc j) (tags_of (ap_tags ap))))"
    if "tags_requested (ap_tags ap)" "request w cfg n (addAttribute_call cfg eventId ap) = Inr (JsonValue data)"
      "pb_Attribute data = Some created" "a_id created = Some aid" "aid \<noteq> []"
      "j < length (tags_of (ap_tags ap))"
      "\<forall>i < j. \<exists>d. request w cfg (Suc n + i)
                       (addTag_call cfg aid (tags_of (ap_tags ap) ! i)) = Inr d"
      "request w cfg (Suc n + j) (addTag_call cfg aid (tags_of (ap_tags ap) ! j)) = Inl err"
    using that by (intro addAttribute_tag_fails) auto
qed

lemmas example_world_defs =
  replaying_def parse_created_def created_text_def tagged_text_def attribute_text_def
  quoted_def empty_object_def event_99_def attr_300_def new_incident_def evil_domain_def
  misp_config_def read_member_def timer_delay_def

theorem create_with_tags_witness:
  "createEvent
     (replaying parse_created
        [Responded 200 created_text, Responded 200 ''{}'', Responded 200 ''{}'',
         Responded 200 tagged_text])
     misp_config 0 (new_incident (Some [''tlp:white'', ''tlp:green''])) =
     (Inr (Some (event_99 (Some [''tlp:white'', ''tlp:green'']))),
      [createEvent_call misp_config (new_incident (Some [''tlp:white'', ''tlp:green''])),
       tagEvent_call misp_config ''99'' ''tlp:white'',
       tagEvent_call misp_config ''99'' ''tlp:green'',
       getEvent_call misp_config ''99'']) \<and>
   createEvent (replaying parse_created [Responded 200 created_text]) misp_config 0
     (new_incident None) =
     (Inr (Some (event_99 None)), [createEvent_call misp_config (new_incident None)])"
  using create_with_tags
          [where w = "replaying parse_created
                        [Responded 200 created_text, Responded 200 ''{}'', Responded 200 ''{}'',
                         Responded 200 tagged_text]"
             and cfg = misp_config and n = 0
             and ep = "new_incident (Some [''tlp:white'', ''tlp:green''])"
             and data = "empty_object\<lparr>pb_Event := Some (event_99 None)\<rparr>"
             and ev = "event_99 None" and eid = "''99''"]
        create_with_tags
          [where w = "replaying parse_created [Responded 200 created_text]"
             and cfg = misp_config and n = 0 and ep = "new_incident None"]
  by (simp add: example_world_defs createEvent_def getEvent_def request_def request_text_def
        fetch_def response_ok_def tags_requested_def tags_of_def truthy_def js_or_def Let_def)

text \<open>
  C6 as stated has the entity fetched once after the tag requests, whether or not a
  tag request failed, for events and attributes alike. Here the first of two tag requests
  of \<open>createEvent\<close> is refused: the second tag is not sent, nothing is fetched, the
  method fails. And \<open>addAttribute\<close> with two tags that succeed issues three requests,
  none of them a fetch, and returns the answer of the create request.
\<close>

theorem tag_failure_and_attribute_path:
  "createEvent
     (replaying parse_created
        [Responded 200 created_text, Responded 403 ''{}'', Responded 200 ''{}'',
         Responded 200 tagged_text])
     misp_config 0 (new_incident (Some [''tlp:white'', ''tlp:green''])) =
     (Inl (StatusError 403 ''{}''),
      [createEvent_call misp_config (new_incident (Some [''tlp:white'', ''tlp:green''])),
       tagEvent_call misp_config ''99'' ''tlp:white'']) \<and>
   addAttribute
     (replaying parse_created
        [Responded 200 attribute_text, Responded 200 ''{}'', Responded 200 ''{}''])
     misp_config 0 ''42'' (evil_domain (Some [''tlp:white'', ''tlp:green''])) =
     (Inr (Some attr_300),
      [addAttribute_call misp_config ''42'' (evil_domain (Some [''tlp:white'', ''tlp:green''])),
       addTag_call misp_config ''300'' ''tlp:white'',
       addTag_call misp_config ''300'' ''tlp:green''])"
  by (simp add: example_world_defs createEvent_def addAttribute_def request_def request_text_def
        fetch_def response_ok_def tags_requested_def tags_of_def truthy_def js_or_def Let_def
        error_detail_def)

subsection \<open>The default search limit\<close>

lemma put_if_keeps: "map_of body k' = Some x \<Longrightarrow> map_of (put_if c k v body) k' = Some x"
  by (simp add: put_if_def)

lemma put_string_keeps: "map_of body k' = Some x \<Longrightarrow> map_of (put_string s k body) k' = Some x"
  by (simp add: put_string_def put_if_keeps split: option.split)

lemma default_limit_sent:
  "sp_limit p = None \<Longrightarrow> json_member (searchAttributes_body p) ''limit'' = Some (JNum 50)"
  unfolding searchAttributes_body_def Let_def json_member_def
  by (simp split: option.split add: put_if_keeps put_string_keeps)

lemma search_values_params:
  "search_values search eventId n vs m calls = (res, calls') \<Longrightarrow>
   \<forall>c \<in> set calls. sp_limit c = None \<Longrightarrow> \<forall>c \<in> set calls'. sp_limit c = None"
proof (induction vs arbitrary: n m calls)
  case Nil
  then show ?case by simp
next
  case (Cons v vs)
  show ?case
  proof (cases "search n (correlation_search v)")
    case (Inl err)
    with Cons.prems show ?thesis by (auto simp: correlation_search_def)
  next
    case (Inr ms)
    with Cons.prems have run:
      "search_values search eventId (Suc n) vs (foldl (record_match eventId v) m ms)
         (calls @ [correlation_search v]) = (res, calls')"
      by simp
    have "\<forall>c \<in> set (calls @ [correlation_search v]). sp_limit c = None"
      using Cons.prems(2) by (simp add: correlation_search_def)
    from Cons.IH [OF run this] show ?thesis .
  qed
qed

lemma related_calls_unlimited:
  "\<forall>c \<in> set (snd (misp_get_related_events get search eventId)). sp_limit c = None"
proof -
  have loop: "\<forall>c \<in> set (snd (search_values search eventId 1 vs m [])). sp_limit c = None" for vs m
    using search_values_params
            [of search eventId 1 vs m "[]" "fst (search_values search eventId 1 vs m [])"
                "snd (search_values search eventId 1 vs m [])"]
    by simp
  show ?thesis
    using loop
    by (auto simp: misp_get_related_events_def Let_def split: sum.splits option.splits prod.splits)
       (metis snd_conv)+
qed

lemma search_values_cong:
  "(\<And>n v. search n (correlation_search v) = search' n (correlation_search v)) \<Longrightarrow>
   search_values search eventId n vs m calls = search_values search' eventId n vs m calls"
  by (induction vs arbitrary: n m calls) (simp_all split: sum.split)

lemma related_cong:
  assumes "\<And>n v. search n (correlation_search v) = search' n (correlation_search v)"
  shows "misp_get_related_events get search eventId = misp_get_related_events get search' eventId"
  unfolding misp_get_related_events_def search_values_cong [of search search', OF assms] ..

lemma correlate_cong:
  assumes "\<And>n v. search n (correlation_search v) = search' n (correlation_search v)"
  shows "misp_correlate search v = misp_correlate search' v"
  by (simp add: misp_correlate_def assms)

text \<open>
  C10. A search without \<open>limit\<close> sends \<open>limit = 50\<close>; the search of
  \<open>misp_correlate\<close> and every search of \<open>misp_get_related_events\<close> is one. So when the
  platform answers a search with the first \<open>limit\<close> of the attributes that match, both
  tools return what they return on the first 50 matches of each value: the matches after
  the 50th change nothing, and \<open>total_attributes\<close> is at most 50.
\<close>

theorem searches_capped_at_fifty:
  "(sp_limit p = None \<longrightarrow>
      json_member (searchAttributes_body p) ''limit'' = Some (JNum 50) \<and>
      ac_body (searchAttributes_call cfg p) = Some (searchAttributes_body p)) \<and>
   sp_limit (correlation_search v) = None \<and>
   (\<forall>c \<in> set (snd (misp_get_related_events get search eventId)). sp_limit c = None) \<and>
   ((\<forall>n v. searchAttributes w cfg n (correlation_search v) =
             Inr (take (sent_limit (correlation_search v)) (matching v))) \<longrightarrow>
      misp_correlate (searchAttributes w cfg) v =
        misp_correlate (\<lambda>n p. Inr (take 50 (matching v))) v \<and>
      misp_get_related_events get (searchAttributes w cfg) eventId =
        misp_get_related_events get (\<lambda>n p. Inr (take 50 (matching (js_or (sp_value p) []))))
          eventId \<and>
      (\<forall>r. misp_correlate (searchAttributes w cfg) v = ToolJson r \<longrightarrow> total_attributes r \<le> 50))"
proof (intro conjI impI)
  show "json_member (searchAttributes_body p) ''limit'' = Some (JNum 50)" if "sp_limit p = None"
    using that by (rule default_limit_sent)
  show "ac_body (searchAttributes_call cfg p) = Some (searchAttributes_body p)"
    by (simp add: searchAttributes_call_def make_call_def)
  show "sp_limit (correlation_search v) = None"
    by (simp add: correlation_search_def)
  show "\<forall>c \<in> set (snd (misp_get_related_events get search eventId)). sp_limit c = None"
    by (rule related_calls_unlimited)
next
  assume honoured: "\<forall>n v. searchAttributes w cfg n (correlation_search v) =
             Inr (take (sent_limit (correlation_search v)) (matching v))"
  have fifty: "sent_limit (correlation_search u) = 50" for u
    by (simp add: sent_limit_def default_limit_sent correlation_search_def)
  have searched: "js_or (sp_value (correlation_search u)) [] = u" for u
    by (simp add: correlation_search_def js_or_def)
  have answer: "searchAttributes w cfg n (correlation_search u) = Inr (take 50 (matching u))" for n u
    using honoured by (simp add: fifty)
  show c: "misp_correlate (searchAttributes w cfg) v =
        misp_correlate (\<lambda>n p. Inr (take 50 (matching v))) v"
    by (simp add: misp_correlate_def answer)
  show "misp_get_related_events get (searchAttributes w cfg) eventId =
        misp_get_related_events get (\<lambda>n p. Inr (take 50 (matching (js_or (sp_value p) []))))
          eventId"
    by (rule related_cong) (simp add: answer searched)
  show "\<forall>r. misp_correlate (searchAttributes w cfg) v = ToolJson r \<longrightarrow> total_attributes r \<le> 50"
    unfolding c
    by (auto simp: misp_correlate_def correlate_aggregate_def Let_def split: if_splits)
qed

theorem searches_capped_at_fifty_witness:
  "json_member (searchAttributes_body (correlation_search ''evil.com'')) ''limit''
     = Some (JNum 50) \<and>
   length (sixty_matches ''evil.com'') = 60 \<and>
   searchAttributes capping misp_config 0 (correlation_search ''evil.com'')
     = Inr (take 50 (sixty_matches ''evil.com'')) \<and>
   misp_correlate (searchAttributes capping misp_config) ''evil.com'' =
     misp_correlate (\<lambda>n p. Inr (take 50 (sixty_matches ''evil.com''))) ''evil.com'' \<and>
   misp_correlate (searchAttributes capping misp_config) ''evil.com'' =
     ToolJson (correlate_aggregate ''evil.com'' (take 50 (sixty_matches ''evil.com''))) \<and>
   total_attributes (correlate_aggregate ''evil.com'' (take 50 (sixty_matches ''evil.com''))) = 50"
proof -
  have fifty: "sent_limit (correlation_search u) = 50" for u
    by (simp add: sent_limit_def default_limit_sent correlation_search_def)
  have answer: "searchAttributes capping misp_config n (correlation_search u)
      = Inr (take (sent_limit (correlation_search u)) (sixty_matches u))" for n u
    unfolding fifty
    by (simp add: searchAttributes_def request_def request_text_def fetch_def response_ok_def
          capping_def misp_config_def parse_capped_def empty_object_def sixty_matches_def
          searchAttributes_call_def make_call_def default_limit_sent correlation_search_def
          read_member_def timer_delay_def)
  then have honoured: "\<forall>n v. searchAttributes capping misp_config n (correlation_search v)
      = Inr (take (sent_limit (correlation_search v)) (sixty_matches v))"
    by blast
  have total: "total_attributes (correlate_aggregate ''evil.com'' (take 50 (sixty_matches ''evil.com''))) = 50"
    by (simp add: correlate_aggregate_def Let_def sixty_matches_def)
  have out: "misp_correlate (\<lambda>n p. Inr (take 50 (sixty_matches ''evil.com''))) ''evil.com'' =
     ToolJson (correlate_aggregate ''evil.com'' (take 50 (sixty_matches ''evil.com'')))"
    by (simp add: misp_correlate_def sixty_matches_def)
  from searches_capped_at_fifty
         [where p = "correlation_search ''evil.com''" and v = "''evil.com''" and w = capping
            and cfg = misp_config and matching = sixty_matches]
       honoured total out answer [of 0 "''evil.com''"] fifty [of "''evil.com''"]
  show ?thesis
    by (simp add: sixty_matches_def)
qed

end
